theory Spec2Isabelle
  imports Complex_Main "HOL-Library.AList" "HOL-Library.Log_Nat"
begin

section \<open>Arithmetic invariants of a hyperbolic 3-manifold: the resolution engine\<close>

text \<open>
  A shallow embedding of \<^verbatim>\<open>python/snap/ManifoldNT.py\<close>. A \<^verbatim>\<open>ManifoldNT\<close> object is a
  record of its attributes and every method takes the record and returns the updated one.
  The attribute \<^verbatim>\<open>self._x\<close> is the record field \<open>s_x\<close>. Objects of the number-theory
  libraries (number fields, ideals, approximate algebraic numbers, words, the wrapped
  SnapPy manifold) are labelled values; what the libraries compute from them is read
  from a record of collaborator functions, the argument \<open>L\<close> of every method.
\<close>

subsection \<open>Python values\<close>

datatype error =
  ValueError | RuntimeError | ZeroDivisionError | TypeError | AttributeError | KeyError

text \<open>\<^verbatim>\<open>PrecDegreeTuple = namedtuple("PrecDegreeTuple", ["prec", "degree"])\<close>\<close>

datatype PrecDegreeTuple = PrecDegreeTuple (prec: int) (degree: int)

text \<open>
  What \<^verbatim>\<open>next_prec_and_degree\<close> returns, and what is passed on as a precision: a
  \<^verbatim>\<open>PrecDegreeTuple\<close> for the fields, a plain integer for the algebras.
\<close>

datatype planned = PD PrecDegreeTuple | P int

text \<open>The attribute access \<^verbatim>\<open>.prec\<close> and \<^verbatim>\<open>.degree\<close> on such a value.\<close>

fun attr_prec :: "planned \<Rightarrow> error + int" where
  "attr_prec (PD t) = Inr (prec t)"
| "attr_prec (P n) = Inl AttributeError"

fun attr_degree :: "planned \<Rightarrow> error + int" where
  "attr_degree (PD t) = Inr (degree t)"
| "attr_degree (P n) = Inl AttributeError"

text \<open>Python's \<^verbatim>\<open>max\<close> of two such values: tuples compare lexicographically,
  a tuple and an integer do not compare.\<close>

fun py_max2 :: "planned \<Rightarrow> planned \<Rightarrow> error + planned" where
  "py_max2 (P a) (P b) = Inr (P (if b > a then b else a))"
| "py_max2 (PD a) (PD b) =
     Inr (PD (if prec b > prec a \<or> (prec b = prec a \<and> degree b > degree a) then b else a))"
| "py_max2 _ _ = Inl TypeError"

text \<open>\<^verbatim>\<open>min\<close> and \<^verbatim>\<open>max\<close> of a list of integers raise \<^verbatim>\<open>ValueError\<close> on the empty list.\<close>

fun py_min :: "int list \<Rightarrow> error + int" where
  "py_min [] = Inl ValueError"
| "py_min (x # xs) = Inr (fold min xs x)"

fun py_max :: "int list \<Rightarrow> error + int" where
  "py_max [] = Inl ValueError"
| "py_max (x # xs) = Inr (fold max xs x)"

text \<open>
  A dictionary is an association list in insertion order; \<^verbatim>\<open>d[k] = v\<close> is
  \<^const>\<open>AList.update\<close>, which overwrites the value of a key that is present and appends
  a new key; \<^verbatim>\<open>d[k]\<close> is \<^const>\<open>map_of\<close>.
\<close>

type_synonym ('k, 'v) dict = "('k \<times> 'v) list"

definition dict_keys :: "('k, 'v) dict \<Rightarrow> 'k list" where
  "dict_keys d = remdups (map fst d)"

definition dict_values :: "('k, 'v) dict \<Rightarrow> 'v list" where
  "dict_values d = map (\<lambda>k. the (map_of d k)) (dict_keys d)"

subsection \<open>Invariant names\<close>

text \<open>
  \<^verbatim>\<open>str.lower\<close> and \<^verbatim>\<open>str.strip\<close>, on ASCII text: a name is a string of ASCII
  characters, and \<open>is_space\<close> holds of the ASCII characters that \<^verbatim>\<open>str.strip\<close> removes.
  The white space outside ASCII that \<^verbatim>\<open>str.strip\<close> also removes (such as U+0085 and
  U+00A0) is outside this reading.
\<close>

definition lower_char :: "char \<Rightarrow> char" where
  "lower_char c =
     (let n = (of_char c :: nat) in if 65 \<le> n \<and> n \<le> 90 then char_of (n + 32) else c)"

definition is_space :: "char \<Rightarrow> bool" where
  "is_space c = ((of_char c :: nat) \<in> {9, 10, 11, 12, 13, 28, 29, 30, 31, 32})"

definition lower :: "string \<Rightarrow> string" where
  "lower s = map lower_char s"

definition strip :: "string \<Rightarrow> string" where
  "strip s = rev (dropWhile is_space (rev (dropWhile is_space s)))"

definition fix_names :: "string \<Rightarrow> error + string" where
  "fix_names name0 =
     (let name = strip (lower name0) in
      if name = ''tf'' \<or> name = ''trace field'' then Inr ''trace field''
      else if name = ''itf'' \<or> name = ''invariant trace field'' then Inr ''invariant trace field''
      else if name = ''qa'' \<or> name = ''quaternion algebra'' then Inr ''quaternion algebra''
      else if name = ''iqa'' \<or> name = ''invariant quaternion algebra''
        then Inr ''invariant quaternion algebra''
      else Inl ValueError)"

subsection \<open>Library objects and collaborators\<close>

text \<open>
  Objects of SnapPy and Sage are labelled values. The constructors that carry arguments
  are the objects the module itself builds: \<^verbatim>\<open>polished_holonomy(self, bits_prec)\<close>, the
  approximate algebraic numbers of \<^verbatim>\<open>approximate_trace\<close> and of the arithmetic on them,
  the value of an expression at the generator of a field, and
  \<^verbatim>\<open>QuaternionAlgebraNF(field, a, b)\<close>.
\<close>

datatype snappy_manifold = SnapPyManifold nat
datatype approx_gens = ApproxGens nat
datatype number_field = NumberField nat
datatype ideal = Ideal nat
datatype word = Word nat
datatype field_iso = FieldIso nat
datatype holonomy = PolishedHolonomy snappy_manifold int

datatype aan =
    NumericalRoot nat
  | Generator nat
  | ApproximateTrace snappy_manifold word
  | AAN_of_int int
  | AAN_power aan nat
  | AAN_minus aan aan

text \<open>An exact expression returned by \<^verbatim>\<open>express\<close>: a polynomial with rational
  coefficients; \<^verbatim>\<open>e == 0\<close> holds for the zero polynomial.\<close>

datatype exact_expr = Polynomial "rat list"

fun expr_is_zero :: "exact_expr \<Rightarrow> bool" where
  "expr_is_zero (Polynomial cs) = (filter (\<lambda>c. c \<noteq> 0) cs = [])"

datatype nf_elt = ExactGenerator nat | AtGenerator exact_expr number_field

datatype quaternion_algebra = QuaternionAlgebraNF number_field nf_elt nf_elt

type_synonym exact_field_data = "number_field \<times> aan \<times> nf_elt list"

text \<open>
  The collaborators, one field for each library function the module calls. They are
  taken to return; \<open>express\<close>, \<open>same_subfield_of_CC\<close> and \<open>special_isomorphism\<close> may
  raise, since the module passes them values of more than one Python type
  (\<^verbatim>\<open>None\<close> for a field, a \<^verbatim>\<open>PrecDegreeTuple\<close> for a precision).

  The floating-point arithmetic of the planner is a collaborator too:
  \<open>floor_log2_float L prec degree_increment prec_increment itf_deg\<close> is what Python and
  Sage compute for
  \<^verbatim>\<open>floor(log(prec * (degree_increment / prec_increment) / itf_deg, 2))\<close>
  from the four integers, with the quotient, the product and the logarithm evaluated in
  floating point, or the exception that this evaluation raises. It need not be the floor
  of the exact logarithm: the rounding of the three operations decides it where the exact
  quotient is close to a power of two.

  For \<^verbatim>\<open>_conjugate_invariants\<close>: \<open>conjugate_field\<close> is
  \<^verbatim>\<open>misc_functions.conjugate_field\<close>, \<open>exact_field_of\<close> is the entry \<^verbatim>\<open>_field[True]\<close> of
  a list of approximate generators (the field found for it, if any),
  \<open>conjugate_ideal L K i\<close> is \<^verbatim>\<open>set(K.ideal(str(elt)) for elt in i.gens())\<close>, and
  \<open>iteration_order\<close> lists a set of ideals in the order in which a \<^verbatim>\<open>for\<close> loop
  visits it.
\<close>

record library =
  elementary_divisors :: "snappy_manifold \<Rightarrow> int list"
  trace_field_gens :: "snappy_manifold \<Rightarrow> approx_gens"
  invariant_trace_field_gens :: "snappy_manifold \<Rightarrow> approx_gens"
  find_field :: "approx_gens \<Rightarrow> int \<Rightarrow> int \<Rightarrow> bool \<Rightarrow> exact_field_data option"
  gens_of :: "approx_gens \<Rightarrow> aan list"
  express :: "aan \<Rightarrow> aan \<Rightarrow> planned \<Rightarrow> error + exact_expr option"
  find_hilbert_symbol_words :: "holonomy \<Rightarrow> int \<Rightarrow> int \<Rightarrow> word \<times> word"
  commutator_of_words :: "word \<Rightarrow> word \<Rightarrow> word"
  find_prime_factors_in_a_set :: "int set \<Rightarrow> int set"
  nf_degree :: "number_field \<Rightarrow> int"
  nf_signature :: "number_field \<Rightarrow> int \<times> int"
  nf_is_isomorphic :: "number_field \<Rightarrow> number_field \<Rightarrow> bool"
  denominator_ideal :: "nf_elt \<Rightarrow> ideal"
  ideal_factor :: "ideal \<Rightarrow> (ideal \<times> int) list"
  absolute_norm :: "ideal \<Rightarrow> int"
  same_subfield_of_CC :: "number_field option \<Rightarrow> number_field option \<Rightarrow> bool \<Rightarrow> error + bool"
  special_isomorphism ::
    "number_field \<Rightarrow> number_field \<Rightarrow> exact_expr option list \<Rightarrow> exact_expr option list
      \<Rightarrow> error + field_iso"
  iso_apply :: "field_iso \<Rightarrow> ideal \<Rightarrow> ideal"
  ramified_real_places :: "quaternion_algebra \<Rightarrow> nat list"
  ramified_residue_characteristics :: "quaternion_algebra \<Rightarrow> int \<Rightarrow> nat"
  qa_is_isomorphic :: "quaternion_algebra \<Rightarrow> quaternion_algebra \<Rightarrow> bool"
  new_QA_via_field_isomorphism :: "quaternion_algebra \<Rightarrow> field_iso \<Rightarrow> quaternion_algebra"
  floor_log2_float :: "int \<Rightarrow> int \<Rightarrow> int \<Rightarrow> int \<Rightarrow> error + int"
  conjugate_field :: "approx_gens \<Rightarrow> approx_gens"
  exact_field_of :: "approx_gens \<Rightarrow> exact_field_data option"
  conjugate_ideal :: "number_field \<Rightarrow> ideal \<Rightarrow> ideal set"
  iteration_order :: "ideal set \<Rightarrow> ideal list"

subsection \<open>The manifold wrapper\<close>

record ManifoldNT =
  s_snappy_mfld :: snappy_manifold
  s_trace_field :: "number_field option"
  s_trace_field_numerical_root :: "aan option"
  s_trace_field_generators :: "nf_elt list option"
  s_trace_field_prec_record :: "(PrecDegreeTuple, bool) dict"
  s_invariant_trace_field :: "number_field option"
  s_invariant_trace_field_numerical_root :: "aan option"
  s_invariant_trace_field_generators :: "nf_elt list option"
  s_invariant_trace_field_prec_record :: "(PrecDegreeTuple, bool) dict"
  s_quaternion_algebra :: "quaternion_algebra option"
  s_quaternion_algebra_prec_record :: "(int, bool) dict"
  s_invariant_quaternion_algebra :: "quaternion_algebra option"
  s_invariant_quaternion_algebra_prec_record :: "(int, bool) dict"
  s_denominators :: "ideal set option"
  s_denominator_residue_characteristics :: "int set option"
  s_approx_trace_field_gens :: approx_gens
  s_approx_invariant_trace_field_gens :: approx_gens

definition is_modtwo_homology_sphere :: "library \<Rightarrow> ManifoldNT \<Rightarrow> bool" where
  "is_modtwo_homology_sphere L self =
     (let factors = [divisor. divisor \<leftarrow> elementary_divisors L (s_snappy_mfld self),
                       divisor = 0 \<or> divisor mod 2 = 0]
      in length factors = 0)"

text \<open>\<^verbatim>\<open>ManifoldNT.__init__\<close>, given the wrapped SnapPy manifold.\<close>

definition init :: "library \<Rightarrow> snappy_manifold \<Rightarrow> ManifoldNT" where
  "init L snappy_mfld =
     (let self = \<lparr> s_snappy_mfld = snappy_mfld,
          s_trace_field = None, s_trace_field_numerical_root = None,
          s_trace_field_generators = None, s_trace_field_prec_record = [],
          s_invariant_trace_field = None, s_invariant_trace_field_numerical_root = None,
          s_invariant_trace_field_generators = None, s_invariant_trace_field_prec_record = [],
          s_quaternion_algebra = None, s_quaternion_algebra_prec_record = [],
          s_invariant_quaternion_algebra = None,
          s_invariant_quaternion_algebra_prec_record = [],
          s_denominators = None, s_denominator_residue_characteristics = None,
          s_approx_trace_field_gens = trace_field_gens L snappy_mfld,
          s_approx_invariant_trace_field_gens = trace_field_gens L snappy_mfld \<rparr>
      in if is_modtwo_homology_sphere L self then self
         else self\<lparr> s_approx_invariant_trace_field_gens :=
                      invariant_trace_field_gens L snappy_mfld \<rparr>)"


text \<open>
  \<^verbatim>\<open>self._dict_of_prec_records[invariant]\<close>: the dictionary holds the very objects
  \<^verbatim>\<open>_trace_field_prec_record\<close>, ..., so the lookup reads the attribute. The records of
  the fields are keyed by \<^verbatim>\<open>PrecDegreeTuple\<close>, those of the algebras by the precision.
\<close>

definition field_prec_record :: "ManifoldNT \<Rightarrow> string \<Rightarrow> (PrecDegreeTuple, bool) dict" where
  "field_prec_record self invariant =
     (if invariant = ''trace field'' then s_trace_field_prec_record self
      else s_invariant_trace_field_prec_record self)"

definition algebra_prec_record :: "ManifoldNT \<Rightarrow> string \<Rightarrow> (int, bool) dict" where
  "algebra_prec_record self invariant =
     (if invariant = ''quaternion algebra'' then s_quaternion_algebra_prec_record self
      else s_invariant_quaternion_algebra_prec_record self)"

subsection \<open>The planner\<close>

text \<open>
  \<^verbatim>\<open>next_prec_and_degree\<close>. The division \<^verbatim>\<open>degree_increment / prec_increment\<close> is
  Python 3's true division and \<^verbatim>\<open>floor(log(x, 2))\<close> is Sage's; both are floating point
  in the source and are read here as operations on the reals. Outside the domain of the
  logarithm (\<open>x \<le> 0\<close>) the model raises \<^verbatim>\<open>ValueError\<close>.
\<close>

function next_prec_and_degree ::
  "library \<Rightarrow> ManifoldNT \<Rightarrow> string \<Rightarrow> int \<Rightarrow> int \<Rightarrow> int \<Rightarrow> int \<Rightarrow> error + planned" where
  "next_prec_and_degree L self invariant0 starting_prec starting_degree prec_increment
       degree_increment =
    (if prec_increment = 0 then Inl ZeroDivisionError else
     (case fix_names invariant0 of Inl e \<Rightarrow> Inl e | Inr invariant \<Rightarrow>
     (if invariant = ''trace field'' \<or> invariant = ''invariant trace field'' then
       let rcd = field_prec_record self invariant in
       if rcd = [] then Inr (PD (PrecDegreeTuple starting_prec starting_degree))
       else if True \<in> set (dict_values rcd) then
         (case py_min [prec pair. pair \<leftarrow> dict_keys rcd, map_of rcd pair = Some True] of
            Inl e \<Rightarrow> Inl e
          | Inr smallest_successful_prec \<Rightarrow>
         (case py_min [degree pair. pair \<leftarrow> dict_keys rcd, map_of rcd pair = Some True] of
            Inl e \<Rightarrow> Inl e
          | Inr smallest_successful_degree \<Rightarrow>
              Inr (PD (PrecDegreeTuple smallest_successful_prec smallest_successful_degree))))
       else
         (case py_max [prec pair. pair \<leftarrow> dict_keys rcd, map_of rcd pair \<noteq> Some True] of
            Inl e \<Rightarrow> Inl e
          | Inr largest_failed_prec \<Rightarrow>
         (case py_max [degree pair. pair \<leftarrow> dict_keys rcd, map_of rcd pair \<noteq> Some True] of
            Inl e \<Rightarrow> Inl e
          | Inr largest_failed_degree \<Rightarrow>
            let newpair = PrecDegreeTuple (largest_failed_prec + prec_increment)
                            (largest_failed_degree + degree_increment) in
            if invariant = ''trace field'' \<and> s_invariant_trace_field self \<noteq> None then
              let itf_deg = nf_degree L (the (s_invariant_trace_field self)) in
              if is_modtwo_homology_sphere L self then
                Inr (PD (PrecDegreeTuple (prec newpair) itf_deg))
              else
                (case floor_log2_float L (prec newpair) degree_increment prec_increment itf_deg of
                   Inl e \<Rightarrow> Inl e
                 | Inr floor_log \<Rightarrow>
                     let new_deg = (floor_log + 1) * itf_deg
                     in Inr (PD (PrecDegreeTuple (prec newpair) new_deg)))
            else if invariant = ''invariant trace field'' \<and> s_trace_field self \<noteq> None then
              let new_deg = nf_degree L (the (s_trace_field self))
              in Inr (PD (PrecDegreeTuple (prec newpair) new_deg))
            else Inr (PD newpair)))
     else
       let field = (if invariant = ''quaternion algebra'' then ''trace field''
                    else ''invariant trace field'');
           rcd = algebra_prec_record self invariant in
       (case next_prec_and_degree L self field 1000 20 5000 5 of
         Inl e \<Rightarrow> Inl e
       | Inr field_planned \<Rightarrow>
       (case attr_prec field_planned of
         Inl e \<Rightarrow> Inl e
       | Inr field_prec \<Rightarrow>
         if rcd = [] then Inr (P field_prec)
         else if True \<in> set (dict_values rcd) then
           (case py_min [p. p \<leftarrow> dict_keys rcd, map_of rcd p = Some True] of
              Inl e \<Rightarrow> Inl e
            | Inr m \<Rightarrow> Inr (P m))
         else
           (case py_max [p. p \<leftarrow> dict_keys rcd, map_of rcd p \<noteq> Some True] of
              Inl e \<Rightarrow> Inl e
            | Inr largest_failed_prec \<Rightarrow>
                Inr (P (max (largest_failed_prec + prec_increment) field_prec))))))))"
  by pat_completeness auto
termination
  by (relation "measure (\<lambda>(L, self, invariant0, a, b, c, d).
        if fix_names invariant0 = Inr ''trace field''
           \<or> fix_names invariant0 = Inr ''invariant trace field'' then 0 else 1)")
     (auto simp: fix_names_def strip_def lower_def lower_char_def is_space_def)

declare next_prec_and_degree.simps [simp del]


text \<open>The value an algebra method uses as its precision: the planner's integer.\<close>

fun as_int :: "planned \<Rightarrow> error + int" where
  "as_int (P n) = Inr n"
| "as_int (PD t) = Inl TypeError"

subsection \<open>The field resolvers\<close>

text \<open>
  A method that changes the object returns its result, or the exception it raised,
  together with the object as it is then. A field, an algebra and the triple returned by
  \<^verbatim>\<open>find_field\<close> are true in a Python condition whenever they are not \<^verbatim>\<open>None\<close>.
\<close>

text \<open>
  The head of both resolvers, \<^verbatim>\<open>if prec is None: prec = self.next_prec_and_degree(name).prec\<close>
  and the same for the degree: the coordinate of the attempt.
\<close>

definition planned_coordinate ::
  "library \<Rightarrow> ManifoldNT \<Rightarrow> string \<Rightarrow> int option \<Rightarrow> int option \<Rightarrow> error + PrecDegreeTuple" where
  "planned_coordinate L self name prec0 degree0 =
     (case (case prec0 of
              None \<Rightarrow> (case next_prec_and_degree L self name 1000 20 5000 5 of
                          Inl e \<Rightarrow> Inl e | Inr r \<Rightarrow> attr_prec r)
            | Some p \<Rightarrow> Inr p) of
        Inl e \<Rightarrow> Inl e
      | Inr prec1 \<Rightarrow>
        (case (case degree0 of
                 None \<Rightarrow> (case next_prec_and_degree L self name 1000 20 5000 5 of
                             Inl e \<Rightarrow> Inl e | Inr r \<Rightarrow> attr_degree r)
               | Some d \<Rightarrow> Inr d) of
           Inl e \<Rightarrow> Inl e
         | Inr degree1 \<Rightarrow> Inr (PrecDegreeTuple prec1 degree1)))"

definition trace_field ::
  "library \<Rightarrow> ManifoldNT \<Rightarrow> int option \<Rightarrow> int option
     \<Rightarrow> (error + number_field option) \<times> ManifoldNT" where
  "trace_field L self prec0 degree0 =
     (if s_trace_field self \<noteq> None \<and> prec0 = None \<and> degree0 = None
      then (Inr (s_trace_field self), self)
      else
        (case planned_coordinate L self ''tf'' prec0 degree0 of
           Inl e \<Rightarrow> (Inl e, self)
         | Inr coordinate \<Rightarrow>
           let exact_field_data =
                 find_field L (s_approx_trace_field_gens self) (prec coordinate)
                   (degree coordinate) True;
               self1 = self\<lparr> s_trace_field_prec_record :=
                         AList.update coordinate (exact_field_data \<noteq> None)
                           (s_trace_field_prec_record self) \<rparr>
           in (case exact_field_data of
                 Some (K, numerical_root, gens) \<Rightarrow>
                   let self2 = self1\<lparr> s_trace_field := Some K,
                                 s_trace_field_numerical_root := Some numerical_root,
                                 s_trace_field_generators := Some gens \<rparr>;
                       self3 =
                         (if s_invariant_trace_field self2 = None
                             \<and> \<not> is_modtwo_homology_sphere L self2
                          then self2\<lparr> s_invariant_trace_field_prec_record :=
                                   AList.update coordinate True
                                     (s_invariant_trace_field_prec_record self2),
                                 s_invariant_trace_field := Some K,
                                 s_invariant_trace_field_numerical_root := Some numerical_root,
                                 s_invariant_trace_field_generators := Some gens \<rparr>
                          else self2)
                   in (Inr (s_trace_field self3), self3)
               | None \<Rightarrow> (Inr None, self1))))"

definition invariant_trace_field ::
  "library \<Rightarrow> ManifoldNT \<Rightarrow> int option \<Rightarrow> int option
     \<Rightarrow> (error + number_field option) \<times> ManifoldNT" where
  "invariant_trace_field L self prec0 degree0 =
     (if s_invariant_trace_field self \<noteq> None \<and> prec0 = None \<and> degree0 = None
      then (Inr (s_invariant_trace_field self), self)
      else
        (case planned_coordinate L self ''itf'' prec0 degree0 of
           Inl e \<Rightarrow> (Inl e, self)
         | Inr coordinate \<Rightarrow>
           let exact_field_data =
                 find_field L (s_approx_invariant_trace_field_gens self) (prec coordinate)
                   (degree coordinate) True;
               self1 = self\<lparr> s_invariant_trace_field_prec_record :=
                         AList.update coordinate (exact_field_data \<noteq> None)
                           (s_invariant_trace_field_prec_record self) \<rparr>
           in (case exact_field_data of
                 Some (K, numerical_root, gens) \<Rightarrow>
                   let self2 = self1\<lparr> s_invariant_trace_field := Some K,
                                 s_invariant_trace_field_numerical_root := Some numerical_root,
                                 s_invariant_trace_field_generators := Some gens \<rparr>
                   in (Inr (s_invariant_trace_field self2), self2)
               | None \<Rightarrow> (Inr None, self1))))"


subsection \<open>The quaternion algebras\<close>

text \<open>\<^verbatim>\<open>approximate_trace\<close>, \<^verbatim>\<open>defining_function\<close> and
  \<^verbatim>\<open>compute_approximate_hilbert_symbol\<close>.\<close>

definition defining_function :: "ManifoldNT \<Rightarrow> int \<Rightarrow> holonomy" where
  "defining_function self prec1 = PolishedHolonomy (s_snappy_mfld self) prec1"

definition approximate_trace :: "ManifoldNT \<Rightarrow> word \<Rightarrow> aan" where
  "approximate_trace self w = ApproximateTrace (s_snappy_mfld self) w"

definition compute_approximate_hilbert_symbol ::
  "library \<Rightarrow> ManifoldNT \<Rightarrow> int \<Rightarrow> int \<Rightarrow> aan \<times> aan" where
  "compute_approximate_hilbert_symbol L self pwr epsilon_coefficient =
     (let (word1, word2) =
            find_hilbert_symbol_words L (defining_function self 5000) pwr epsilon_coefficient;
          first_entry = AAN_minus (AAN_power (approximate_trace self word1) 2) (AAN_of_int 4);
          commutator_word = commutator_of_words L word1 word2;
          second_entry = AAN_minus (approximate_trace self commutator_word) (AAN_of_int 2)
      in (first_entry, second_entry))"

text \<open>\<^verbatim>\<open>entry == 0\<close> and the truth value of an entry, which may be \<^verbatim>\<open>None\<close>.\<close>

fun eq_zero :: "exact_expr option \<Rightarrow> bool" where
  "eq_zero None = False"
| "eq_zero (Some e) = expr_is_zero e"

fun truthy :: "exact_expr option \<Rightarrow> bool" where
  "truthy None = False"
| "truthy (Some e) = (\<not> expr_is_zero e)"

text \<open>
  The loop \<^verbatim>\<open>while True: ...\<close> of \<^verbatim>\<open>quaternion_algebra\<close> (\<^verbatim>\<open>power=1\<close>) and of
  \<^verbatim>\<open>invariant_quaternion_algebra\<close> (\<^verbatim>\<open>power=2\<close>), from the value of
  \<^verbatim>\<open>epsilon_coefficient\<close> at the head of an iteration. The result \<open>None\<close> is a loop that
  never leaves; an exception of \<^verbatim>\<open>express\<close> leaves it.
\<close>

partial_function (option) hilbert_symbol_loop ::
  "library \<Rightarrow> ManifoldNT \<Rightarrow> int \<Rightarrow> aan \<Rightarrow> int \<Rightarrow> int
     \<Rightarrow> (error + exact_expr option \<times> exact_expr option) option" where
  "hilbert_symbol_loop L self pwr primitive_element prec1 epsilon_coefficient =
     (case express L primitive_element
             (fst (compute_approximate_hilbert_symbol L self pwr epsilon_coefficient))
             (P prec1) of
        Inl e \<Rightarrow> Some (Inl e)
      | Inr first_entry \<Rightarrow>
        (case express L primitive_element
                (snd (compute_approximate_hilbert_symbol L self pwr epsilon_coefficient))
                (P prec1) of
           Inl e \<Rightarrow> Some (Inl e)
         | Inr second_entry \<Rightarrow>
             if eq_zero first_entry \<or> eq_zero second_entry
             then hilbert_symbol_loop L self pwr primitive_element prec1
                    (epsilon_coefficient * 10)
             else Some (Inr (first_entry, second_entry))))"

text \<open>The head of both algebra methods,
  \<^verbatim>\<open>if prec is None: prec = self.next_prec_and_degree(name)\<close>: the precision of the attempt.\<close>

definition planned_precision ::
  "library \<Rightarrow> ManifoldNT \<Rightarrow> string \<Rightarrow> int option \<Rightarrow> error + int" where
  "planned_precision L self name prec0 =
     (case prec0 of
        None \<Rightarrow> (case next_prec_and_degree L self name 1000 20 5000 5 of
                    Inl e \<Rightarrow> Inl e | Inr r \<Rightarrow> as_int r)
      | Some p \<Rightarrow> Inr p)"

text \<open>Whether the iteration of the loop that starts with this value of
  \<^verbatim>\<open>epsilon_coefficient\<close> leaves it: neither entry is the zero element, or
  \<^verbatim>\<open>express\<close> raises.\<close>

definition leaves_loop :: "library \<Rightarrow> ManifoldNT \<Rightarrow> int \<Rightarrow> aan \<Rightarrow> int \<Rightarrow> int \<Rightarrow> bool" where
  "leaves_loop L self pwr primitive_element prec1 epsilon_coefficient =
     (case express L primitive_element
             (fst (compute_approximate_hilbert_symbol L self pwr epsilon_coefficient))
             (P prec1) of
        Inl e \<Rightarrow> True
      | Inr first_entry \<Rightarrow>
        (case express L primitive_element
                (snd (compute_approximate_hilbert_symbol L self pwr epsilon_coefficient))
                (P prec1) of
           Inl e \<Rightarrow> True
         | Inr second_entry \<Rightarrow> \<not> (eq_zero first_entry \<or> eq_zero second_entry)))"

text \<open>
  \<^verbatim>\<open>quaternion_algebra(prec)\<close>. The outer \<open>None\<close> is a call that never returns.
\<close>

definition quaternion_algebra ::
  "library \<Rightarrow> ManifoldNT \<Rightarrow> int option
     \<Rightarrow> ((error + quaternion_algebra option) \<times> ManifoldNT) option" where
  "quaternion_algebra L self prec0 =
     (if s_quaternion_algebra self \<noteq> None \<and> prec0 = None
      then Some (Inr (s_quaternion_algebra self), self)
      else
        (case planned_precision L self ''qa'' prec0 of
           Inl e \<Rightarrow> Some (Inl e, self)
         | Inr prec1 \<Rightarrow>
           (case (if s_trace_field self = None
                  then (case trace_field L self (Some prec1) None of
                          (Inl e, self1) \<Rightarrow> (Inl e, self1)
                        | (Inr K, self1) \<Rightarrow> (Inr (K \<noteq> None), self1\<lparr> s_trace_field := K \<rparr>))
                  else (Inr True, self)) of
              (Inl e, self1) \<Rightarrow> Some (Inl e, self1)
            | (Inr False, self1) \<Rightarrow> Some (Inr None, self1)
            | (Inr True, self1) \<Rightarrow>
              (case s_trace_field_numerical_root self1 of
                 None \<Rightarrow> Some (Inl AttributeError, self1)
               | Some primitive_element \<Rightarrow>
                 (case hilbert_symbol_loop L self1 1 primitive_element prec1 10 of
                    None \<Rightarrow> None
                  | Some (Inl e) \<Rightarrow> Some (Inl e, self1)
                  | Some (Inr (first_entry, second_entry)) \<Rightarrow>
                    let self2 = self1\<lparr> s_quaternion_algebra_prec_record :=
                                  AList.update prec1 (truthy first_entry \<and> truthy second_entry)
                                    (s_quaternion_algebra_prec_record self1) \<rparr>
                    in (case (first_entry, second_entry) of
                          (Some e1, Some e2) \<Rightarrow>
                            let K = the (s_trace_field self2);
                                self3 = self2\<lparr> s_quaternion_algebra :=
                                  Some (QuaternionAlgebraNF K (AtGenerator e1 K)
                                          (AtGenerator e2 K)) \<rparr>
                            in Some (Inr (s_quaternion_algebra self3), self3)
                        | _ \<Rightarrow> Some (Inr None, self2)))))))"

text \<open>\<^verbatim>\<open>invariant_quaternion_algebra(prec)\<close>.\<close>

definition invariant_quaternion_algebra ::
  "library \<Rightarrow> ManifoldNT \<Rightarrow> int option
     \<Rightarrow> ((error + quaternion_algebra option) \<times> ManifoldNT) option" where
  "invariant_quaternion_algebra L self prec0 =
     (if s_invariant_quaternion_algebra self \<noteq> None \<and> prec0 = None
      then Some (Inr (s_invariant_quaternion_algebra self), self)
      else
        (case planned_precision L self ''iqa'' prec0 of
           Inl e \<Rightarrow> Some (Inl e, self)
         | Inr prec1 \<Rightarrow>
           (case (if s_invariant_trace_field self = None
                  then (case invariant_trace_field L self (Some prec1) None of
                          (Inl e, self1) \<Rightarrow> (Inl e, self1)
                        | (Inr K, self1) \<Rightarrow>
                            (Inr (K \<noteq> None), self1\<lparr> s_invariant_trace_field := K \<rparr>))
                  else (Inr True, self)) of
              (Inl e, self1) \<Rightarrow> Some (Inl e, self1)
            | (Inr False, self1) \<Rightarrow> Some (Inr None, self1)
            | (Inr True, self1) \<Rightarrow>
              (case s_invariant_trace_field_numerical_root self1 of
                 None \<Rightarrow> Some (Inl AttributeError, self1)
               | Some primitive_element \<Rightarrow>
                 (case hilbert_symbol_loop L self1 2 primitive_element prec1 10 of
                    None \<Rightarrow> None
                  | Some (Inl e) \<Rightarrow> Some (Inl e, self1)
                  | Some (Inr (first_entry, second_entry)) \<Rightarrow>
                    let self2 = self1\<lparr> s_invariant_quaternion_algebra_prec_record :=
                                  AList.update prec1 (truthy first_entry \<and> truthy second_entry)
                                    (s_invariant_quaternion_algebra_prec_record self1) \<rparr>
                    in (case (first_entry, second_entry) of
                          (Some e1, Some e2) \<Rightarrow>
                            let K = the (s_invariant_trace_field self2);
                                self3 = self2\<lparr> s_invariant_quaternion_algebra :=
                                  Some (QuaternionAlgebraNF K (AtGenerator e1 K)
                                          (AtGenerator e2 K)) \<rparr>
                            in Some (Inr (s_invariant_quaternion_algebra self3), self3)
                        | _ \<Rightarrow> Some (Inr None, self2)))))))"


subsection \<open>Denominators and arithmeticity\<close>

text \<open>\<^verbatim>\<open>denominators()\<close>: \<^verbatim>\<open>self._denominators\<close> is \<^verbatim>\<open>None\<close> while unknown and
  \<^verbatim>\<open>set()\<close> when known to be empty.\<close>

definition denominators :: "library \<Rightarrow> ManifoldNT \<Rightarrow> ideal set option \<times> ManifoldNT" where
  "denominators L self =
     (if s_denominators self \<noteq> None then (s_denominators self, self)
      else
        (case s_trace_field_generators self of
           None \<Rightarrow> (None, self)
         | Some generators \<Rightarrow>
           let denominator_ideals = denominator_ideal L ` set generators;
               prime_ideals = (\<Union>idl \<in> denominator_ideals. fst ` set (ideal_factor L idl));
               norms = absolute_norm L ` prime_ideals
           in (Some prime_ideals,
               self\<lparr> s_denominators := Some prime_ideals,
                     s_denominator_residue_characteristics :=
                       Some (find_prime_factors_in_a_set L norms) \<rparr>)))"

definition denominator_residue_characteristics ::
  "library \<Rightarrow> ManifoldNT \<Rightarrow> int set option \<times> ManifoldNT" where
  "denominator_residue_characteristics L self =
     (let self1 = (if s_denominators self = None then snd (denominators L self) else self);
          self2 =
            (case s_denominators self1 of
               Some prime_ideals \<Rightarrow>
                 if s_denominator_residue_characteristics self1 = None
                 then self1\<lparr> s_denominator_residue_characteristics :=
                         Some (find_prime_factors_in_a_set L (absolute_norm L ` prime_ideals)) \<rparr>
                 else self1
             | None \<Rightarrow> self1)
      in (s_denominator_residue_characteristics self2, self2))"

text \<open>\<^verbatim>\<open>is_arithmetic()\<close>: it reads the object and changes nothing; \<open>None\<close> is Python's
  \<^verbatim>\<open>None\<close>.\<close>

definition is_arithmetic :: "library \<Rightarrow> ManifoldNT \<Rightarrow> bool option" where
  "is_arithmetic L self =
     (if \<not> (s_invariant_trace_field self \<noteq> None
            \<and> s_invariant_quaternion_algebra self \<noteq> None
            \<and> s_denominators self \<noteq> None)
      then None
      else
        let (number_of_real_places, number_of_complex_places) =
              nf_signature L (the (s_invariant_trace_field self));
            number_of_ramified_real_places =
              int (length (ramified_real_places L (the (s_invariant_quaternion_algebra self))))
        in Some (number_of_ramified_real_places = number_of_real_places
                 \<and> number_of_complex_places = 1
                 \<and> s_denominators self = Some {}))"

text \<open>\<^verbatim>\<open>delete_arithmetic_invariants()\<close>.\<close>

definition delete_arithmetic_invariants :: "library \<Rightarrow> ManifoldNT \<Rightarrow> ManifoldNT" where
  "delete_arithmetic_invariants L self =
     self\<lparr> s_trace_field := None, s_trace_field_numerical_root := None,
           s_trace_field_generators := None, s_trace_field_prec_record := [],
           s_invariant_trace_field := None, s_invariant_trace_field_numerical_root := None,
           s_invariant_trace_field_generators := None,
           s_invariant_trace_field_prec_record := [],
           s_quaternion_algebra := None, s_quaternion_algebra_prec_record := [],
           s_invariant_quaternion_algebra := None,
           s_invariant_quaternion_algebra_prec_record := [],
           s_denominators := None, s_denominator_residue_characteristics := None,
           s_approx_trace_field_gens := trace_field_gens L (s_snappy_mfld self),
           s_approx_invariant_trace_field_gens :=
             invariant_trace_field_gens L (s_snappy_mfld self) \<rparr>"


subsection \<open>The comparators\<close>

text \<open>
  Two distinct objects \<open>self\<close> and \<open>other\<close> are compared; every comparator returns its
  result and both objects. A list comprehension over calls of \<^verbatim>\<open>express\<close> raises what
  the first failing call raises.
\<close>

fun sequence_err :: "(error + 'a) list \<Rightarrow> error + 'a list" where
  "sequence_err [] = Inr []"
| "sequence_err (Inl e # rs) = Inl e"
| "sequence_err (Inr x # rs) = (case sequence_err rs of Inl e \<Rightarrow> Inl e | Inr xs \<Rightarrow> Inr (x # xs))"

text \<open>\<^verbatim>\<open>[elt.express(gen, prec=prec) for gen in approx_gens]\<close>, where \<^verbatim>\<open>elt\<close> may be
  \<^verbatim>\<open>None\<close>.\<close>

definition express_all ::
  "library \<Rightarrow> aan option \<Rightarrow> approx_gens \<Rightarrow> planned \<Rightarrow> error + exact_expr option list" where
  "express_all L elt approx prec1 =
     sequence_err (map (\<lambda>gen. case elt of None \<Rightarrow> Inl AttributeError
                                | Some a \<Rightarrow> express L a gen prec1) (gens_of L approx))"

text \<open>
  The statements, the same in both comparators, that express the generators \<^verbatim>\<open>approx_gens\<close>
  of the other manifold in both numerical roots and call \<^verbatim>\<open>special_isomorphism\<close> on the
  two lists: \<^verbatim>\<open>old_anchor\<close>, \<^verbatim>\<open>new_anchor\<close>, \<^verbatim>\<open>special_iso\<close>.
\<close>

definition anchored_isomorphism ::
  "library \<Rightarrow> number_field \<Rightarrow> number_field \<Rightarrow> aan option \<Rightarrow> aan option \<Rightarrow> approx_gens
     \<Rightarrow> planned \<Rightarrow> error + field_iso" where
  "anchored_isomorphism L self_field other_field primitive_element old_prim_elt approx prec1 =
     (case express_all L old_prim_elt approx prec1 of
        Inl e \<Rightarrow> Inl e
      | Inr old_anchor \<Rightarrow>
        (case express_all L primitive_element approx prec1 of
           Inl e \<Rightarrow> Inl e
         | Inr new_anchor \<Rightarrow>
             special_isomorphism L self_field other_field old_anchor new_anchor))"











text \<open>\<^verbatim>\<open>_same_denominators(other)\<close>.\<close>

definition same_denominators ::
  "library \<Rightarrow> ManifoldNT \<Rightarrow> ManifoldNT \<Rightarrow> (error + bool) \<times> ManifoldNT \<times> ManifoldNT" where
  "same_denominators L self other =
     (case trace_field L self None None of
        (Inl e, self1) \<Rightarrow> (Inl e, self1, other)
      | (Inr self_field, self1) \<Rightarrow>
        (case trace_field L other None None of
           (Inl e, other1) \<Rightarrow> (Inl e, self1, other1)
         | (Inr other_field, other1) \<Rightarrow>
           if \<not> (self_field \<noteq> None \<and> other_field \<noteq> None)
           then (Inl RuntimeError, self1, other1)
           else
             (case denominators L self1 of
                (None, self2) \<Rightarrow> (Inl RuntimeError, self2, other1)
              | (Some ds, self2) \<Rightarrow>
                (case denominators L other1 of
                   (None, other2) \<Rightarrow> (Inl RuntimeError, self2, other2)
                 | (Some dso, other2) \<Rightarrow>
                   (if s_denominator_residue_characteristics self2
                         \<noteq> s_denominator_residue_characteristics other2
                    then Inr False
                    else if s_trace_field self2 = s_trace_field other2
                    then Inr (s_denominators self2 = s_denominators other2)
                    else if \<not> nf_is_isomorphic L (the (s_trace_field self2))
                                (the (s_trace_field other2))
                    then Inr False
                    else
                      (case next_prec_and_degree L self2 ''tf'' 1000 20 5000 5 of
                         Inl e \<Rightarrow> Inl e
                       | Inr prec_self \<Rightarrow>
                         (case next_prec_and_degree L other2 ''tf'' 1000 20 5000 5 of
                            Inl e \<Rightarrow> Inl e
                          | Inr prec_other \<Rightarrow>
                            (case py_max2 prec_self prec_other of
                               Inl e \<Rightarrow> Inl e
                             | Inr prec1 \<Rightarrow>
                               (case anchored_isomorphism L (the (s_trace_field self2))
                                       (the (s_trace_field other2))
                                       (s_trace_field_numerical_root self2)
                                       (s_trace_field_numerical_root other2)
                                       (s_approx_trace_field_gens other2) prec1 of
                                  Inl e \<Rightarrow> Inl e
                                | Inr special_iso \<Rightarrow>
                                    Inr (s_denominators self2
                                         = Some (iso_apply L special_iso
                                                  ` the (s_denominators other2))))))),
                    self2, other2)))))"






subsection \<open>Example collaborators\<close>

text \<open>
  A concrete set of collaborators, for evaluating the methods on concrete objects.
  The manifold labelled 0 has first homology of odd order (a mod-2-homology sphere), the
  others have a free summand. A number field labelled \<open>n\<close> has degree \<open>n mod 10\<close> and one
  complex place; two fields whose labels agree modulo 10 are isomorphic. No field search
  succeeds and every expression is the constant 1; an example that needs another
  behaviour updates the field of the record. The logarithm of the planner is computed
  exactly, on integers: for \<open>0 < b \<le> a\<close> the floor of the base-2 logarithm of \<open>a / b\<close> is
  the bit length of \<open>a div b\<close> minus one. The examples use it at the quotients 3, 21/2
  and 13, which are far from a power of two.
\<close>

definition base_library :: library where
  "base_library =
     \<lparr> elementary_divisors = (\<lambda>m. case m of SnapPyManifold n \<Rightarrow> if n = 0 then [5] else [0]),
       trace_field_gens = (\<lambda>m. case m of SnapPyManifold n \<Rightarrow> ApproxGens (2 * n)),
       invariant_trace_field_gens = (\<lambda>m. case m of SnapPyManifold n \<Rightarrow> ApproxGens (2 * n + 1)),
       find_field = (\<lambda>g p d opt. None),
       gens_of = (\<lambda>g. [Generator 0, Generator 1]),
       express = (\<lambda>a b pr. Inr (Some (Polynomial [1]))),
       find_hilbert_symbol_words = (\<lambda>h pw eps. (Word 0, Word 1)),
       commutator_of_words = (\<lambda>a b. Word 2),
       find_prime_factors_in_a_set = (\<lambda>S. S),
       nf_degree = (\<lambda>K. case K of NumberField n \<Rightarrow> int (n mod 10)),
       nf_signature = (\<lambda>K. case K of NumberField n \<Rightarrow> (int (n mod 10) - 2, 1)),
       nf_is_isomorphic =
         (\<lambda>K K'. case K of NumberField n \<Rightarrow> (case K' of NumberField m \<Rightarrow> n mod 10 = m mod 10)),
       denominator_ideal =
         (\<lambda>x. case x of ExactGenerator n \<Rightarrow> Ideal n | AtGenerator e K \<Rightarrow> Ideal 0),
       ideal_factor = (\<lambda>i. case i of Ideal n \<Rightarrow> if n = 0 then [] else [(Ideal n, 1)]),
       absolute_norm = (\<lambda>i. case i of Ideal n \<Rightarrow> int n),
       same_subfield_of_CC =
         (\<lambda>a b c. case a of None \<Rightarrow> Inl AttributeError
                   | Some x \<Rightarrow> (case b of None \<Rightarrow> Inl AttributeError | Some y \<Rightarrow> Inr (x = y))),
       special_isomorphism = (\<lambda>K K' old new. Inr (FieldIso 0)),
       iso_apply = (\<lambda>f i. i),
       ramified_real_places = (\<lambda>A. [0]),
       ramified_residue_characteristics = (\<lambda>A p. 0),
       qa_is_isomorphic = (\<lambda>A B. A = B),
       new_QA_via_field_isomorphism = (\<lambda>A f. A),
       floor_log2_float =
         (\<lambda>p di pi d.
            if pi = 0 \<or> d = 0 then Inl ZeroDivisionError
            else let a = p * di; b = pi * d in
              if a \<le> 0 \<or> b \<le> 0 then Inl ValueError
              else if b \<le> a then Inr (int (floorlog 2 (nat (a div b))) - 1)
              else Inr (- int (floorlog 2 (nat ((b - 1) div a))))),
       conjugate_field = (\<lambda>g. g),
       exact_field_of = (\<lambda>g. None),
       conjugate_ideal = (\<lambda>K i. {i}),
       iteration_order =
         (\<lambda>S. map Ideal (sorted_list_of_set ((\<lambda>i. case i of Ideal n \<Rightarrow> n) ` S))) \<rparr>"

text \<open>A field search that succeeds from degree 4 on, with a field of degree 4, and one
  that succeeds from degree 2 on, with a field of degree 2.\<close>

definition find_field_degree4 :: "approx_gens \<Rightarrow> int \<Rightarrow> int \<Rightarrow> bool \<Rightarrow> exact_field_data option" where
  "find_field_degree4 g p d opt =
     (if 4 \<le> d then Some (NumberField 4, NumericalRoot 4, [ExactGenerator 0, ExactGenerator 0])
      else None)"

text \<open>Example objects: a manifold that is not a mod-2-homology sphere as
  \<^verbatim>\<open>__init__\<close> leaves it, the same once its invariant trace field is resolved (degree 2)
  and one or two attempts at its trace field have failed.\<close>

definition fresh_manifold :: ManifoldNT where
  "fresh_manifold = init base_library (SnapPyManifold 2)"

definition itf_known_tf_failed :: ManifoldNT where
  "itf_known_tf_failed =
     fresh_manifold
       \<lparr> s_trace_field_prec_record := [(PrecDegreeTuple 1000 20, False)],
         s_invariant_trace_field := Some (NumberField 2),
         s_invariant_trace_field_numerical_root := Some (NumericalRoot 2),
         s_invariant_trace_field_generators := Some [ExactGenerator 0],
         s_invariant_trace_field_prec_record := [(PrecDegreeTuple 1000 20, True)] \<rparr>"

definition tf_failed_16000 :: ManifoldNT where
  "tf_failed_16000 =
     itf_known_tf_failed\<lparr> s_trace_field_prec_record := [(PrecDegreeTuple 16000 8, False)] \<rparr>"

text \<open>A mod-2-homology sphere as \<^verbatim>\<open>__init__\<close> leaves it; the same with one field of
  degree 4 resolved at (1000, 20) and a failed attempt at the other field at (2000, 3).\<close>

definition fresh_sphere :: ManifoldNT where
  "fresh_sphere = init base_library (SnapPyManifold 0)"



text \<open>Collaborators whose field search succeeds from degree 4 on; collaborators whose
  \<^verbatim>\<open>express\<close> always returns the zero element; and collaborators whose word search
  encodes the epsilon coefficient in the first word and whose \<^verbatim>\<open>express\<close> returns the
  zero element for the traces found with a coefficient below 1000.\<close>

definition library_degree4 :: library where
  "library_degree4 = base_library\<lparr> find_field := find_field_degree4 \<rparr>"

definition library_zero :: library where
  "library_zero = base_library\<lparr> express := (\<lambda>a b pr. Inr (Some (Polynomial []))) \<rparr>"

definition library_separating :: library where
  "library_separating =
     base_library
       \<lparr> express :=
           (\<lambda>a b pr. case b of
              AAN_minus (AAN_power (ApproximateTrace m (Word n)) k) c \<Rightarrow>
                if n < 1000 then Inr (Some (Polynomial [])) else Inr (Some (Polynomial [1]))
            | _ \<Rightarrow> Inr (Some (Polynomial [1]))),
         find_hilbert_symbol_words := (\<lambda>h pw eps. (Word (nat eps), Word 1)) \<rparr>"

text \<open>The sphere with its trace field resolved.\<close>

definition sphere_tf_known :: ManifoldNT where
  "sphere_tf_known =
     fresh_sphere
       \<lparr> s_trace_field := Some (NumberField 4),
         s_trace_field_numerical_root := Some (NumericalRoot 4),
         s_trace_field_generators := Some [ExactGenerator 0, ExactGenerator 0],
         s_trace_field_prec_record := [(PrecDegreeTuple 1000 20, True)] \<rparr>"

text \<open>A manifold whose invariant trace field has the signature (1, 1), with its
  invariant quaternion algebra resolved and an empty set of denominators; and
  collaborators for which no real place ramifies.\<close>

definition arithmetic_example :: ManifoldNT where
  "arithmetic_example =
     fresh_manifold
       \<lparr> s_invariant_trace_field := Some (NumberField 3),
         s_invariant_trace_field_numerical_root := Some (NumericalRoot 3),
         s_invariant_trace_field_generators := Some [ExactGenerator 0],
         s_invariant_trace_field_prec_record := [(PrecDegreeTuple 1000 20, True)],
         s_invariant_quaternion_algebra :=
           Some (QuaternionAlgebraNF (NumberField 3)
                   (AtGenerator (Polynomial [1]) (NumberField 3))
                   (AtGenerator (Polynomial [1]) (NumberField 3))),
         s_invariant_quaternion_algebra_prec_record := [(1000, True)],
         s_denominators := Some {},
         s_denominator_residue_characteristics := Some {} \<rparr>"

definition library_unramified :: library where
  "library_unramified = base_library\<lparr> ramified_real_places := (\<lambda>A. []) \<rparr>"

text \<open>Two manifolds whose trace fields are isomorphic and not equal, with their
  denominators computed: both sets are empty.\<close>

definition integral_sphere :: ManifoldNT where
  "integral_sphere =
     sphere_tf_known\<lparr> s_denominators := Some {},
                      s_denominator_residue_characteristics := Some {} \<rparr>"

definition integral_manifold :: ManifoldNT where
  "integral_manifold =
     fresh_manifold
       \<lparr> s_trace_field := Some (NumberField 14),
         s_trace_field_numerical_root := Some (NumericalRoot 14),
         s_trace_field_generators := Some [ExactGenerator 0],
         s_trace_field_prec_record := [(PrecDegreeTuple 1000 20, True)],
         s_invariant_trace_field := Some (NumberField 14),
         s_invariant_trace_field_numerical_root := Some (NumericalRoot 14),
         s_invariant_trace_field_generators := Some [ExactGenerator 0],
         s_invariant_trace_field_prec_record := [(PrecDegreeTuple 1000 20, True)],
         s_denominators := Some {},
         s_denominator_residue_characteristics := Some {} \<rparr>"


section \<open>Properties\<close>

subsection \<open>Names\<close>

lemma fix_names_tf: "fix_names ''tf'' = Inr ''trace field''"
  by (simp add: fix_names_def strip_def lower_def lower_char_def is_space_def)

lemma fix_names_itf: "fix_names ''itf'' = Inr ''invariant trace field''"
  by (simp add: fix_names_def strip_def lower_def lower_char_def is_space_def)

lemma fix_names_qa: "fix_names ''qa'' = Inr ''quaternion algebra''"
  by (simp add: fix_names_def strip_def lower_def lower_char_def is_space_def)

lemma fix_names_iqa: "fix_names ''iqa'' = Inr ''invariant quaternion algebra''"
  by (simp add: fix_names_def strip_def lower_def lower_char_def is_space_def)

lemma fix_names_trace_field: "fix_names ''trace field'' = Inr ''trace field''"
  by (simp add: fix_names_def strip_def lower_def lower_char_def is_space_def)

lemma fix_names_invariant_trace_field:
  "fix_names ''invariant trace field'' = Inr ''invariant trace field''"
  by (simp add: fix_names_def strip_def lower_def lower_char_def is_space_def)


subsection \<open>Dictionaries, minima and maxima\<close>

lemma py_min_Min: "xs \<noteq> [] \<Longrightarrow> py_min xs = Inr (Min (set xs))"
proof (cases xs)
  case (Cons a list) then show ?thesis using Min.set_eq_fold[of a list] by simp
qed simp

lemma py_max_Max: "xs \<noteq> [] \<Longrightarrow> py_max xs = Inr (Max (set xs))"
proof (cases xs)
  case (Cons a list) then show ?thesis using Max.set_eq_fold[of a list] by simp
qed simp

lemma set_dict_keys: "set (dict_keys d) = fst ` set d"
  by (simp add: dict_keys_def)

lemma map_of_Some_key: "map_of d k = Some v \<Longrightarrow> k \<in> fst ` set d"
  by (metis map_of_eq_None_iff option.distinct(1))

lemma True_in_dict_values:
  "True \<in> set (dict_values d) \<longleftrightarrow> (\<exists>k. map_of d k = Some True)"
proof
  assume "True \<in> set (dict_values d)"
  then obtain k where k: "k \<in> fst ` set d" and t: "the (map_of d k) = True"
    by (auto simp: dict_values_def dict_keys_def)
  from k obtain v where "map_of d k = Some v"
    by (metis map_of_eq_None_iff not_Some_eq)
  with t show "\<exists>k. map_of d k = Some True" by auto
next
  assume "\<exists>k. map_of d k = Some True"
  then obtain k where k: "map_of d k = Some True" by blast
  then have "k \<in> fst ` set d" by (rule map_of_Some_key)
  with k show "True \<in> set (dict_values d)"
    by (force simp: dict_values_def dict_keys_def)
qed

lemma set_successes:
  "set [f pair. pair \<leftarrow> dict_keys d, map_of d pair = Some True] = f ` {k. map_of d k = Some True}"
  by (force simp: set_dict_keys dest: map_of_Some_key)

lemma successes_py_min:
  assumes "map_of d k = Some True"
  shows "py_min [f pair. pair \<leftarrow> dict_keys d, map_of d pair = Some True]
           = Inr (Min (f ` {k. map_of d k = Some True}))"
proof -
  let ?xs = "[f pair. pair \<leftarrow> dict_keys d, map_of d pair = Some True]"
  have "f k \<in> set ?xs" unfolding set_successes using assms by blast
  then have "?xs \<noteq> []" by (metis empty_iff empty_set)
  then have "py_min ?xs = Inr (Min (set ?xs))" by (rule py_min_Min)
  then show ?thesis unfolding set_successes .
qed

lemma set_failures:
  assumes "\<not> (\<exists>k. map_of d k = Some True)"
  shows "set [f pair. pair \<leftarrow> dict_keys d, map_of d pair \<noteq> Some True] = f ` fst ` set d"
  using assms by (auto simp: set_dict_keys)

lemma failures_py_max:
  assumes "\<not> (\<exists>k. map_of d k = Some True)" and "d \<noteq> []"
  shows "py_max [f pair. pair \<leftarrow> dict_keys d, map_of d pair \<noteq> Some True]
           = Inr (Max (f ` fst ` set d))"
proof -
  let ?xs = "[f pair. pair \<leftarrow> dict_keys d, map_of d pair \<noteq> Some True]"
  have "set ?xs = f ` fst ` set d" using assms(1) by (rule set_failures)
  moreover from assms(2) have "f ` fst ` set d \<noteq> {}" by simp
  ultimately have "?xs \<noteq> []" by (metis empty_set)
  then have "py_max ?xs = Inr (Max (set ?xs))" by (rule py_max_Max)
  then show ?thesis unfolding \<open>set ?xs = f ` fst ` set d\<close> .
qed

subsection \<open>The planner on the records of the fields\<close>

lemma planner_success:
  assumes "prec_increment \<noteq> 0"
    and "fix_names name = Inr kind"
    and "kind = ''trace field'' \<or> kind = ''invariant trace field''"
    and "map_of (field_prec_record self kind) k = Some True"
  shows "next_prec_and_degree L self name sp sd prec_increment di
       = Inr (PD (PrecDegreeTuple
                 (Min (prec ` {k. map_of (field_prec_record self kind) k = Some True}))
                 (Min (degree ` {k. map_of (field_prec_record self kind) k = Some True}))))"
proof -
  let ?d = "field_prec_record self kind"
  have ne: "?d \<noteq> []" using assms(4) by auto
  have tv: "True \<in> set (dict_values ?d)" unfolding True_in_dict_values using assms(4) by blast
  show ?thesis
    apply (subst next_prec_and_degree.simps)
    using assms(1,2,3) ne tv
    by (auto simp add: Let_def successes_py_min[OF assms(4)])
qed

lemma planner_empty:
  assumes "prec_increment \<noteq> 0"
    and "fix_names name = Inr kind"
    and "kind = ''trace field'' \<or> kind = ''invariant trace field''"
    and "field_prec_record self kind = []"
  shows "next_prec_and_degree L self name sp sd prec_increment di
       = Inr (PD (PrecDegreeTuple sp sd))"
  apply (subst next_prec_and_degree.simps)
  using assms by (auto simp add: Let_def)


lemma planner_failure_tf:
  assumes "prec_increment \<noteq> 0"
    and "fix_names name = Inr ''trace field''"
    and "s_trace_field_prec_record self \<noteq> []"
    and "\<not> (\<exists>k. map_of (s_trace_field_prec_record self) k = Some True)"
  shows "next_prec_and_degree L self name sp sd prec_increment di =
     (let p = Max (prec ` fst ` set (s_trace_field_prec_record self)) + prec_increment;
          dg = Max (degree ` fst ` set (s_trace_field_prec_record self)) + di
      in case s_invariant_trace_field self of
           None \<Rightarrow> Inr (PD (PrecDegreeTuple p dg))
         | Some K \<Rightarrow>
            if is_modtwo_homology_sphere L self then Inr (PD (PrecDegreeTuple p (nf_degree L K)))
            else (case floor_log2_float L p di prec_increment (nf_degree L K) of
                    Inl e \<Rightarrow> Inl e
                  | Inr F \<Rightarrow> Inr (PD (PrecDegreeTuple p ((F + 1) * nf_degree L K)))))"
proof -
  have tv: "True \<notin> set (dict_values (s_trace_field_prec_record self))"
    unfolding True_in_dict_values using assms(4) by blast
  show ?thesis
    apply (subst next_prec_and_degree.simps)
    using assms(1,2,3) tv
    by (auto simp add: Let_def field_prec_record_def failures_py_max[OF assms(4) assms(3)]
          split: option.splits sum.splits)
qed

lemma planner_failure_itf:
  assumes "prec_increment \<noteq> 0"
    and "fix_names name = Inr ''invariant trace field''"
    and "s_invariant_trace_field_prec_record self \<noteq> []"
    and "\<not> (\<exists>k. map_of (s_invariant_trace_field_prec_record self) k = Some True)"
  shows "next_prec_and_degree L self name sp sd prec_increment di =
     (let p = Max (prec ` fst ` set (s_invariant_trace_field_prec_record self)) + prec_increment;
          dg = Max (degree ` fst ` set (s_invariant_trace_field_prec_record self)) + di
      in case s_trace_field self of
           None \<Rightarrow> Inr (PD (PrecDegreeTuple p dg))
         | Some K \<Rightarrow> Inr (PD (PrecDegreeTuple p (nf_degree L K))))"
proof -
  have tv: "True \<notin> set (dict_values (s_invariant_trace_field_prec_record self))"
    unfolding True_in_dict_values using assms(4) by blast
  show ?thesis
    apply (subst next_prec_and_degree.simps)
    using assms(1,2,3) tv
    by (auto simp add: Let_def field_prec_record_def failures_py_max[OF assms(4) assms(3)]
          split: option.splits)
qed

text \<open>
  Claim C5. When the record of a field kind holds a success, \<^verbatim>\<open>next_prec_and_degree\<close>
  returns the least precision among the successful coordinates together with the least
  degree among them, each taken on its own; when the record is empty it returns the
  defaults, precision 1000 and degree 20. The pair returned need not be a coordinate of
  the record: after successes at (1000, 30) and (6000, 25) it is (1000, 25).
\<close>

theorem planner_success_minimum:
  assumes "prec_increment \<noteq> 0"
    and "fix_names name = Inr kind"
    and "kind = ''trace field'' \<or> kind = ''invariant trace field''"
  shows "((\<exists>k. map_of (field_prec_record self kind) k = Some True) \<longrightarrow>
            next_prec_and_degree L self name starting_prec starting_degree prec_increment di
             = Inr (PD (PrecDegreeTuple
                 (Min (prec ` {k. map_of (field_prec_record self kind) k = Some True}))
                 (Min (degree ` {k. map_of (field_prec_record self kind) k = Some True})))))
       \<and> (field_prec_record self kind = [] \<longrightarrow>
            next_prec_and_degree L self name 1000 20 prec_increment di
             = Inr (PD (PrecDegreeTuple 1000 20)))"
  using planner_success[OF assms] planner_empty[OF assms] by blast

theorem planner_success_minimum_witness:
  "next_prec_and_degree base_library
      ((init base_library (SnapPyManifold 1))\<lparr> s_trace_field_prec_record :=
          [(PrecDegreeTuple 1000 30, True), (PrecDegreeTuple 6000 25, True)] \<rparr>)
      ''tf'' 1000 20 5000 5 = Inr (PD (PrecDegreeTuple 1000 25))
   \<and> PrecDegreeTuple 1000 25 \<notin> set (dict_keys [(PrecDegreeTuple 1000 30, True), (PrecDegreeTuple 6000 25, True)])
   \<and> next_prec_and_degree base_library (init base_library (SnapPyManifold 1)) ''itf'' 1000 20 5000 5
        = Inr (PD (PrecDegreeTuple 1000 20))"
proof -
  let ?d = "[(PrecDegreeTuple 1000 30, True), (PrecDegreeTuple 6000 25, True)]"
  let ?s = "(init base_library (SnapPyManifold 1))\<lparr> s_trace_field_prec_record := ?d \<rparr>"
  have S: "{k. map_of ?d k = Some True} = {PrecDegreeTuple 1000 30, PrecDegreeTuple 6000 25}"
    by (auto split: if_splits)
  have r: "field_prec_record ?s ''trace field'' = ?d"
    by (simp add: field_prec_record_def)
  have e: "\<exists>k. map_of (field_prec_record ?s ''trace field'') k = Some True"
    unfolding r by (rule exI[of _ "PrecDegreeTuple 1000 30"]) simp
  have i: "field_prec_record (init base_library (SnapPyManifold 1)) ''invariant trace field'' = []"
    by (simp add: field_prec_record_def init_def Let_def)
  have n: "(5000::int) \<noteq> 0" by simp
  have k: "''trace field'' = ''trace field'' \<or> ''trace field'' = ''invariant trace field''" by simp
  have k2: "''invariant trace field'' = ''trace field'' \<or> ''invariant trace field'' = ''invariant trace field''" by simp
  from planner_success_minimum[OF n fix_names_tf k, of ?s base_library 1000 20 5] e
  have 1: "next_prec_and_degree base_library ?s ''tf'' 1000 20 5000 5 = Inr (PD (PrecDegreeTuple 1000 25))"
    unfolding r S by simp
  from planner_success_minimum[OF n fix_names_itf k2, of "init base_library (SnapPyManifold 1)" base_library 1000 20 5] i
  have 2: "next_prec_and_degree base_library (init base_library (SnapPyManifold 1)) ''itf'' 1000 20 5000 5
        = Inr (PD (PrecDegreeTuple 1000 20))" by blast
  have 3: "PrecDegreeTuple 1000 25 \<notin> set (dict_keys ?d)" by (simp add: dict_keys_def)
  from 1 2 3 show ?thesis by blast
qed

subsection \<open>Example objects\<close>

lemma fresh_manifold_simps:
  "s_trace_field_prec_record fresh_manifold = []"
  "s_invariant_trace_field_prec_record fresh_manifold = []"
  "s_trace_field fresh_manifold = None"
  "s_invariant_trace_field fresh_manifold = None"
  "s_snappy_mfld fresh_manifold = SnapPyManifold 2"
  "s_approx_trace_field_gens fresh_manifold = ApproxGens 4"
  "s_approx_invariant_trace_field_gens fresh_manifold = ApproxGens 5"
  by (simp_all add: fresh_manifold_def init_def Let_def base_library_def
        is_modtwo_homology_sphere_def)

lemma fresh_sphere_simps:
  "s_trace_field_prec_record fresh_sphere = []"
  "s_invariant_trace_field_prec_record fresh_sphere = []"
  "s_trace_field fresh_sphere = None"
  "s_invariant_trace_field fresh_sphere = None"
  "s_snappy_mfld fresh_sphere = SnapPyManifold 0"
  "s_approx_trace_field_gens fresh_sphere = ApproxGens 0"
  "s_approx_invariant_trace_field_gens fresh_sphere = ApproxGens 0"
  by (simp_all add: fresh_sphere_def init_def Let_def base_library_def
        is_modtwo_homology_sphere_def)

lemma itf_known_tf_failed_simps:
  "s_trace_field_prec_record itf_known_tf_failed = [(PrecDegreeTuple 1000 20, False)]"
  "s_invariant_trace_field itf_known_tf_failed = Some (NumberField 2)"
  "s_trace_field itf_known_tf_failed = None"
  "s_snappy_mfld itf_known_tf_failed = SnapPyManifold 2"
  by (simp_all add: itf_known_tf_failed_def fresh_manifold_simps)


lemma tf_failed_16000_simps:
  "s_trace_field_prec_record tf_failed_16000 = [(PrecDegreeTuple 16000 8, False)]"
  "s_invariant_trace_field tf_failed_16000 = Some (NumberField 2)"
  "s_trace_field tf_failed_16000 = None"
  "s_snappy_mfld tf_failed_16000 = SnapPyManifold 2"
  by (simp_all add: tf_failed_16000_def itf_known_tf_failed_simps)

lemma base_library_find_field: "find_field base_library g p d opt = None"
  by (simp add: base_library_def)

lemma planner_fresh_tf:
  "next_prec_and_degree base_library fresh_manifold ''tf'' 1000 20 5000 5
     = Inr (PD (PrecDegreeTuple 1000 20))"
  by (rule planner_empty[OF _ fix_names_tf]) (simp_all add: field_prec_record_def fresh_manifold_simps)

lemma planner_fresh_itf:
  "next_prec_and_degree base_library fresh_manifold ''itf'' 1000 20 5000 5
     = Inr (PD (PrecDegreeTuple 1000 20))"
  by (rule planner_empty[OF _ fix_names_itf]) (simp_all add: field_prec_record_def fresh_manifold_simps)

subsection \<open>The cross-invariant correction of the degree\<close>

lemma base_library_floor_log2:
  "floor_log2_float base_library 6000 5 5000 2 = Inr 1"
  "floor_log2_float base_library 21000 5 5000 2 = Inr 3"
  "floor_log2_float base_library 26000 5 5000 2 = Inr 3"
  by (simp_all add: base_library_def Let_def compute_floorlog)





subsection \<open>Escalation under repeated failure\<close>

lemma planned_coordinate_planner:
  "next_prec_and_degree L self name 1000 20 5000 5 = Inr (PD c)
     \<Longrightarrow> planned_coordinate L self name None None = Inr c"
  by (cases c) (simp add: planned_coordinate_def)

lemma trace_field_failure:
  assumes "\<not> (s_trace_field self \<noteq> None \<and> prec0 = None \<and> degree0 = None)"
    and "planned_coordinate L self ''tf'' prec0 degree0 = Inr c"
    and "find_field L (s_approx_trace_field_gens self) (prec c) (degree c) True = None"
  shows "trace_field L self prec0 degree0
       = (Inr None, self\<lparr> s_trace_field_prec_record :=
                        AList.update c False (s_trace_field_prec_record self) \<rparr>)"
  using assms by (auto simp: trace_field_def Let_def)

lemma invariant_trace_field_failure:
  assumes "\<not> (s_invariant_trace_field self \<noteq> None \<and> prec0 = None \<and> degree0 = None)"
    and "planned_coordinate L self ''itf'' prec0 degree0 = Inr c"
    and "find_field L (s_approx_invariant_trace_field_gens self) (prec c) (degree c) True = None"
  shows "invariant_trace_field L self prec0 degree0
       = (Inr None, self\<lparr> s_invariant_trace_field_prec_record :=
                        AList.update c False (s_invariant_trace_field_prec_record self) \<rparr>)"
  using assms by (auto simp: invariant_trace_field_def Let_def)

lemma all_fail_update:
  "\<forall>k. map_of d k \<noteq> Some True \<Longrightarrow> \<not> (\<exists>k. map_of (AList.update c False d) k = Some True)"
  by (simp add: update_conv')

lemma Max_keys_update:
  assumes "d = [] \<or> Max (f ` fst ` set d) \<le> f c"
  shows "Max (f ` fst ` set (AList.update c b d)) = (f c :: int)"
proof (cases "d = []")
  case True then show ?thesis by simp
next
  case False
  then have ne: "f ` fst ` set d \<noteq> {}" by simp
  have "Max (insert (f c) (f ` fst ` set d)) = max (f c) (Max (f ` fst ` set d))"
    using ne by (simp add: Max_insert)
  with assms False show ?thesis by (simp add: dom_update)
qed

lemma is_modtwo_homology_sphere_record_update [simp]:
  "is_modtwo_homology_sphere L (self\<lparr> s_trace_field_prec_record := d \<rparr>)
     = is_modtwo_homology_sphere L self"
  "is_modtwo_homology_sphere L (self\<lparr> s_invariant_trace_field_prec_record := d' \<rparr>)
     = is_modtwo_homology_sphere L self"
  by (simp_all add: is_modtwo_homology_sphere_def)

lemma planner_tf_all_fail_prec:
  assumes "\<forall>k. map_of (s_trace_field_prec_record self) k \<noteq> Some True"
    and "next_prec_and_degree L self ''tf'' 1000 20 5000 5 = Inr (PD c)"
  shows "(s_trace_field_prec_record self = [] \<longrightarrow> c = PrecDegreeTuple 1000 20)
       \<and> (s_trace_field_prec_record self \<noteq> [] \<longrightarrow>
            prec c = Max (prec ` fst ` set (s_trace_field_prec_record self)) + 5000
          \<and> (s_invariant_trace_field self = None \<longrightarrow>
               degree c = Max (degree ` fst ` set (s_trace_field_prec_record self)) + 5))"
proof (cases "s_trace_field_prec_record self = []")
  case True
  have "field_prec_record self ''trace field'' = []" using True by (simp add: field_prec_record_def)
  from planner_empty[OF _ fix_names_tf _ this, of 5000 L 1000 20 5] assms(2) True
  show ?thesis by simp
next
  case False
  have nf: "\<not> (\<exists>k. map_of (s_trace_field_prec_record self) k = Some True)" using assms(1) by blast
  have n: "(5000::int) \<noteq> 0" by simp
  from assms(2) False show ?thesis
    unfolding planner_failure_tf[OF n fix_names_tf False nf] Let_def
    by (auto split: option.splits if_splits sum.splits)
qed

lemma planner_itf_all_fail_prec:
  assumes "\<forall>k. map_of (s_invariant_trace_field_prec_record self) k \<noteq> Some True"
    and "next_prec_and_degree L self ''itf'' 1000 20 5000 5 = Inr (PD c)"
  shows "(s_invariant_trace_field_prec_record self = [] \<longrightarrow> c = PrecDegreeTuple 1000 20)
       \<and> (s_invariant_trace_field_prec_record self \<noteq> [] \<longrightarrow>
            prec c = Max (prec ` fst ` set (s_invariant_trace_field_prec_record self)) + 5000
          \<and> (s_trace_field self = None \<longrightarrow>
               degree c = Max (degree ` fst ` set (s_invariant_trace_field_prec_record self)) + 5))"
proof (cases "s_invariant_trace_field_prec_record self = []")
  case True
  have "field_prec_record self ''invariant trace field'' = []"
    using True by (simp add: field_prec_record_def)
  from planner_empty[OF _ fix_names_itf _ this, of 5000 L 1000 20 5] assms(2) True
  show ?thesis by simp
next
  case False
  have nf: "\<not> (\<exists>k. map_of (s_invariant_trace_field_prec_record self) k = Some True)"
    using assms(1) by blast
  have n: "(5000::int) \<noteq> 0" by simp
  from assms(2) False show ?thesis
    unfolding planner_failure_itf[OF n fix_names_itf False nf] Let_def
    by (auto split: option.splits if_splits)
qed

lemma escalation_tf:
  assumes af: "\<forall>k. map_of (s_trace_field_prec_record self) k \<noteq> Some True"
    and unres: "s_trace_field self = None"
    and p1: "next_prec_and_degree L self ''tf'' 1000 20 5000 5 = Inr (PD c1)"
    and ff: "find_field L (s_approx_trace_field_gens self) (prec c1) (degree c1) True = None"
  defines "self' \<equiv> self\<lparr> s_trace_field_prec_record :=
                        AList.update c1 False (s_trace_field_prec_record self) \<rparr>"
  shows "trace_field L self None None = (Inr None, self')"
    and "next_prec_and_degree L self' ''tf'' 1000 20 5000 5 = Inr (PD c2) \<Longrightarrow> prec c1 < prec c2"
    and "s_invariant_trace_field self = None \<Longrightarrow>
           next_prec_and_degree L self' ''tf'' 1000 20 5000 5
             = Inr (PD (PrecDegreeTuple (prec c1 + 5000) (degree c1 + 5)))"
proof -
  let ?d = "s_trace_field_prec_record self"
  let ?d' = "AList.update c1 False ?d"
  show "trace_field L self None None = (Inr None, self')"
    unfolding self'_def
    by (rule trace_field_failure[OF _ planned_coordinate_planner[OF p1] ff]) (simp add: unres)
  have rec': "s_trace_field_prec_record self' = ?d'" by (simp add: self'_def)
  have ne': "s_trace_field_prec_record self' \<noteq> []" by (simp add: rec')
  have nf': "\<not> (\<exists>k. map_of (s_trace_field_prec_record self') k = Some True)"
    unfolding rec' by (rule all_fail_update[OF af])
  have n: "(5000::int) \<noteq> 0" by simp
  note first = planner_tf_all_fail_prec[OF af p1]
  have mp: "Max (prec ` fst ` set ?d') = prec c1"
    by (rule Max_keys_update) (use first in auto)
  have pl: "next_prec_and_degree L self' ''tf'' 1000 20 5000 5 =
     (let p = Max (prec ` fst ` set ?d') + 5000;
          dg = Max (degree ` fst ` set ?d') + 5
      in case s_invariant_trace_field self' of
           None \<Rightarrow> Inr (PD (PrecDegreeTuple p dg))
         | Some K \<Rightarrow>
            if is_modtwo_homology_sphere L self' then Inr (PD (PrecDegreeTuple p (nf_degree L K)))
            else (case floor_log2_float L p 5 5000 (nf_degree L K) of
                    Inl e \<Rightarrow> Inl e
                  | Inr F \<Rightarrow> Inr (PD (PrecDegreeTuple p ((F + 1) * nf_degree L K)))))"
    using planner_failure_tf[OF n fix_names_tf ne' nf', of L 1000 20 5] unfolding rec' .
  { assume "next_prec_and_degree L self' ''tf'' 1000 20 5000 5 = Inr (PD c2)"
    then have "prec c2 = prec c1 + 5000"
      unfolding pl mp Let_def by (auto split: option.splits if_splits sum.splits)
    then show "prec c1 < prec c2" by simp }
  { assume itf: "s_invariant_trace_field self = None"
    have md: "Max (degree ` fst ` set ?d') = degree c1"
      by (rule Max_keys_update) (use first itf in auto)
    have "s_invariant_trace_field self' = None" using itf by (simp add: self'_def)
    then show "next_prec_and_degree L self' ''tf'' 1000 20 5000 5
             = Inr (PD (PrecDegreeTuple (prec c1 + 5000) (degree c1 + 5)))"
      unfolding pl mp md Let_def by simp }
qed

lemma escalation_itf:
  assumes af: "\<forall>k. map_of (s_invariant_trace_field_prec_record self) k \<noteq> Some True"
    and unres: "s_invariant_trace_field self = None"
    and p1: "next_prec_and_degree L self ''itf'' 1000 20 5000 5 = Inr (PD c1)"
    and ff: "find_field L (s_approx_invariant_trace_field_gens self) (prec c1) (degree c1) True = None"
  defines "self' \<equiv> self\<lparr> s_invariant_trace_field_prec_record :=
                        AList.update c1 False (s_invariant_trace_field_prec_record self) \<rparr>"
  shows "invariant_trace_field L self None None = (Inr None, self')"
    and "next_prec_and_degree L self' ''itf'' 1000 20 5000 5 = Inr (PD c2) \<Longrightarrow> prec c1 < prec c2"
    and "s_trace_field self = None \<Longrightarrow>
           next_prec_and_degree L self' ''itf'' 1000 20 5000 5
             = Inr (PD (PrecDegreeTuple (prec c1 + 5000) (degree c1 + 5)))"
proof -
  let ?d = "s_invariant_trace_field_prec_record self"
  let ?d' = "AList.update c1 False ?d"
  show "invariant_trace_field L self None None = (Inr None, self')"
    unfolding self'_def
    by (rule invariant_trace_field_failure[OF _ planned_coordinate_planner[OF p1] ff])
       (simp add: unres)
  have rec': "s_invariant_trace_field_prec_record self' = ?d'" by (simp add: self'_def)
  have ne': "s_invariant_trace_field_prec_record self' \<noteq> []" by (simp add: rec')
  have nf': "\<not> (\<exists>k. map_of (s_invariant_trace_field_prec_record self') k = Some True)"
    unfolding rec' by (rule all_fail_update[OF af])
  have n: "(5000::int) \<noteq> 0" by simp
  note first = planner_itf_all_fail_prec[OF af p1]
  have mp: "Max (prec ` fst ` set ?d') = prec c1"
    by (rule Max_keys_update) (use first in auto)
  have pl: "next_prec_and_degree L self' ''itf'' 1000 20 5000 5 =
     (let p = Max (prec ` fst ` set ?d') + 5000;
          dg = Max (degree ` fst ` set ?d') + 5
      in case s_trace_field self' of
           None \<Rightarrow> Inr (PD (PrecDegreeTuple p dg))
         | Some K \<Rightarrow> Inr (PD (PrecDegreeTuple p (nf_degree L K))))"
    using planner_failure_itf[OF n fix_names_itf ne' nf', of L 1000 20 5] unfolding rec' .
  { assume "next_prec_and_degree L self' ''itf'' 1000 20 5000 5 = Inr (PD c2)"
    then have "prec c2 = prec c1 + 5000"
      unfolding pl mp Let_def by (auto split: option.splits if_splits)
    then show "prec c1 < prec c2" by simp }
  { assume tf: "s_trace_field self = None"
    have md: "Max (degree ` fst ` set ?d') = degree c1"
      by (rule Max_keys_update) (use first tf in auto)
    have "s_trace_field self' = None" using tf by (simp add: self'_def)
    then show "next_prec_and_degree L self' ''itf'' 1000 20 5000 5
             = Inr (PD (PrecDegreeTuple (prec c1 + 5000) (degree c1 + 5)))"
      unfolding pl mp md Let_def by simp }
qed

text \<open>
  Claim C4, as amended. Let the record of a field kind hold failures only (it may be
  empty) and let the attempt at the coordinate the planner returns fail. Then the attempt
  adds this coordinate to the record as a failure and the planner next returns a strictly
  larger precision; it also returns a strictly larger degree when the other field is
  unresolved, so that no cross-invariant correction of the degree applies.
\<close>

theorem escalation_under_failure:
  "((\<forall>k. map_of (s_trace_field_prec_record self) k \<noteq> Some True)
      \<and> s_trace_field self = None
      \<and> next_prec_and_degree L self ''tf'' 1000 20 5000 5 = Inr (PD c1)
      \<and> find_field L (s_approx_trace_field_gens self) (prec c1) (degree c1) True = None \<longrightarrow>
      (let self' = snd (trace_field L self None None) in
         fst (trace_field L self None None) = Inr None
       \<and> s_trace_field_prec_record self' = AList.update c1 False (s_trace_field_prec_record self)
       \<and> (\<forall>c2. next_prec_and_degree L self' ''tf'' 1000 20 5000 5 = Inr (PD c2)
               \<longrightarrow> prec c1 < prec c2)
       \<and> (s_invariant_trace_field self = None \<longrightarrow>
            (\<exists>c2. next_prec_and_degree L self' ''tf'' 1000 20 5000 5 = Inr (PD c2)
                  \<and> prec c1 < prec c2 \<and> degree c1 < degree c2))))
   \<and> ((\<forall>k. map_of (s_invariant_trace_field_prec_record self) k \<noteq> Some True)
      \<and> s_invariant_trace_field self = None
      \<and> next_prec_and_degree L self ''itf'' 1000 20 5000 5 = Inr (PD d1)
      \<and> find_field L (s_approx_invariant_trace_field_gens self) (prec d1) (degree d1) True = None \<longrightarrow>
      (let self' = snd (invariant_trace_field L self None None) in
         fst (invariant_trace_field L self None None) = Inr None
       \<and> s_invariant_trace_field_prec_record self'
           = AList.update d1 False (s_invariant_trace_field_prec_record self)
       \<and> (\<forall>d2. next_prec_and_degree L self' ''itf'' 1000 20 5000 5 = Inr (PD d2)
               \<longrightarrow> prec d1 < prec d2)
       \<and> (s_trace_field self = None \<longrightarrow>
            (\<exists>d2. next_prec_and_degree L self' ''itf'' 1000 20 5000 5 = Inr (PD d2)
                  \<and> prec d1 < prec d2 \<and> degree d1 < degree d2))))"
proof (intro conjI impI)
  assume h: "(\<forall>k. map_of (s_trace_field_prec_record self) k \<noteq> Some True)
      \<and> s_trace_field self = None
      \<and> next_prec_and_degree L self ''tf'' 1000 20 5000 5 = Inr (PD c1)
      \<and> find_field L (s_approx_trace_field_gens self) (prec c1) (degree c1) True = None"
  then have af: "\<forall>k. map_of (s_trace_field_prec_record self) k \<noteq> Some True"
    and un: "s_trace_field self = None"
    and p1: "next_prec_and_degree L self ''tf'' 1000 20 5000 5 = Inr (PD c1)"
    and ff: "find_field L (s_approx_trace_field_gens self) (prec c1) (degree c1) True = None"
    by blast+
  note e = escalation_tf[OF af un p1 ff]
  show "let self' = snd (trace_field L self None None) in
         fst (trace_field L self None None) = Inr None
       \<and> s_trace_field_prec_record self' = AList.update c1 False (s_trace_field_prec_record self)
       \<and> (\<forall>c2. next_prec_and_degree L self' ''tf'' 1000 20 5000 5 = Inr (PD c2)
               \<longrightarrow> prec c1 < prec c2)
       \<and> (s_invariant_trace_field self = None \<longrightarrow>
            (\<exists>c2. next_prec_and_degree L self' ''tf'' 1000 20 5000 5 = Inr (PD c2)
                  \<and> prec c1 < prec c2 \<and> degree c1 < degree c2))"
    unfolding Let_def e(1) using e(2) e(3) by auto
next
  assume h: "(\<forall>k. map_of (s_invariant_trace_field_prec_record self) k \<noteq> Some True)
      \<and> s_invariant_trace_field self = None
      \<and> next_prec_and_degree L self ''itf'' 1000 20 5000 5 = Inr (PD d1)
      \<and> find_field L (s_approx_invariant_trace_field_gens self) (prec d1) (degree d1) True = None"
  then have af: "\<forall>k. map_of (s_invariant_trace_field_prec_record self) k \<noteq> Some True"
    and un: "s_invariant_trace_field self = None"
    and p1: "next_prec_and_degree L self ''itf'' 1000 20 5000 5 = Inr (PD d1)"
    and ff: "find_field L (s_approx_invariant_trace_field_gens self) (prec d1) (degree d1) True = None"
    by blast+
  note e = escalation_itf[OF af un p1 ff]
  show "let self' = snd (invariant_trace_field L self None None) in
         fst (invariant_trace_field L self None None) = Inr None
       \<and> s_invariant_trace_field_prec_record self'
           = AList.update d1 False (s_invariant_trace_field_prec_record self)
       \<and> (\<forall>d2. next_prec_and_degree L self' ''itf'' 1000 20 5000 5 = Inr (PD d2)
               \<longrightarrow> prec d1 < prec d2)
       \<and> (s_trace_field self = None \<longrightarrow>
            (\<exists>d2. next_prec_and_degree L self' ''itf'' 1000 20 5000 5 = Inr (PD d2)
                  \<and> prec d1 < prec d2 \<and> degree d1 < degree d2))"
    unfolding Let_def e(1) using e(2) e(3) by auto
qed

theorem escalation_under_failure_witness:
  "(let self' = snd (trace_field base_library fresh_manifold None None) in
      fst (trace_field base_library fresh_manifold None None) = Inr None
    \<and> s_trace_field_prec_record self' = [(PrecDegreeTuple 1000 20, False)]
    \<and> (\<exists>c2. next_prec_and_degree base_library self' ''tf'' 1000 20 5000 5 = Inr (PD c2)
             \<and> 1000 < prec c2 \<and> 20 < degree c2))
 \<and> (let self' = snd (invariant_trace_field base_library fresh_manifold None None) in
      fst (invariant_trace_field base_library fresh_manifold None None) = Inr None
    \<and> s_invariant_trace_field_prec_record self' = [(PrecDegreeTuple 1000 20, False)]
    \<and> (\<exists>d2. next_prec_and_degree base_library self' ''itf'' 1000 20 5000 5 = Inr (PD d2)
             \<and> 1000 < prec d2 \<and> 20 < degree d2))"
proof -
  note t = escalation_under_failure[of fresh_manifold base_library
        "PrecDegreeTuple 1000 20" "PrecDegreeTuple 1000 20"]
  have h1: "(\<forall>k. map_of (s_trace_field_prec_record fresh_manifold) k \<noteq> Some True)
      \<and> s_trace_field fresh_manifold = None
      \<and> next_prec_and_degree base_library fresh_manifold ''tf'' 1000 20 5000 5
          = Inr (PD (PrecDegreeTuple 1000 20))
      \<and> find_field base_library (s_approx_trace_field_gens fresh_manifold)
          (prec (PrecDegreeTuple 1000 20)) (degree (PrecDegreeTuple 1000 20)) True = None"
    by (simp add: fresh_manifold_simps planner_fresh_tf base_library_find_field)
  have h2: "(\<forall>k. map_of (s_invariant_trace_field_prec_record fresh_manifold) k \<noteq> Some True)
      \<and> s_invariant_trace_field fresh_manifold = None
      \<and> next_prec_and_degree base_library fresh_manifold ''itf'' 1000 20 5000 5
          = Inr (PD (PrecDegreeTuple 1000 20))
      \<and> find_field base_library (s_approx_invariant_trace_field_gens fresh_manifold)
          (prec (PrecDegreeTuple 1000 20)) (degree (PrecDegreeTuple 1000 20)) True = None"
    by (simp add: fresh_manifold_simps planner_fresh_itf base_library_find_field)
  from t[THEN conjunct1, rule_format, OF h1] t[THEN conjunct2, rule_format, OF h2]
  show ?thesis
    by (simp add: Let_def fresh_manifold_simps)
qed

text \<open>
  Claim C4, as stated, fails under the cross-invariant correction: with the invariant
  trace field of degree 2 resolved and a failure of the trace field at (16000, 8), the
  planner returns (21000, 8) and, after the failure of that attempt, (26000, 8): the
  degree has not increased.
\<close>

theorem escalation_degree_counterexample:
  "next_prec_and_degree base_library tf_failed_16000 ''tf'' 1000 20 5000 5
     = Inr (PD (PrecDegreeTuple 21000 8))
 \<and> trace_field base_library tf_failed_16000 None None
     = (Inr None, tf_failed_16000\<lparr> s_trace_field_prec_record :=
          [(PrecDegreeTuple 16000 8, False), (PrecDegreeTuple 21000 8, False)] \<rparr>)
 \<and> next_prec_and_degree base_library
      (tf_failed_16000\<lparr> s_trace_field_prec_record :=
          [(PrecDegreeTuple 16000 8, False), (PrecDegreeTuple 21000 8, False)] \<rparr>)
      ''tf'' 1000 20 5000 5
     = Inr (PD (PrecDegreeTuple 26000 8))"
proof -
  let ?s' = "tf_failed_16000\<lparr> s_trace_field_prec_record :=
          [(PrecDegreeTuple 16000 8, False), (PrecDegreeTuple 21000 8, False)] \<rparr>"
  have n: "(5000::int) \<noteq> 0" by simp
  have d: "nf_degree base_library (NumberField 2) = 2" by (simp add: base_library_def)
  have ns: "\<not> is_modtwo_homology_sphere base_library tf_failed_16000"
    by (simp add: is_modtwo_homology_sphere_def tf_failed_16000_simps base_library_def)
  have 1: "next_prec_and_degree base_library tf_failed_16000 ''tf'' 1000 20 5000 5
     = Inr (PD (PrecDegreeTuple 21000 8))"
    apply (subst planner_failure_tf[OF n fix_names_tf])
    using ns by (simp_all add: tf_failed_16000_simps d Let_def base_library_floor_log2)
  note ff = base_library_find_field
  have 2: "trace_field base_library tf_failed_16000 None None = (Inr None, ?s')"
    apply (subst trace_field_failure[OF _ planned_coordinate_planner[OF 1]])
    by (simp_all add: tf_failed_16000_simps ff)
  have 3: "next_prec_and_degree base_library ?s' ''tf'' 1000 20 5000 5
     = Inr (PD (PrecDegreeTuple 26000 8))"
    apply (subst planner_failure_tf[OF n fix_names_tf])
    using ns by (simp_all add: tf_failed_16000_simps d Let_def base_library_floor_log2)
  from 1 2 3 show ?thesis by blast
qed

subsection \<open>An attempt at the trace field\<close>

lemma trace_field_attempt:
  assumes "\<not> (s_trace_field self \<noteq> None \<and> prec0 = None \<and> degree0 = None)"
    and "planned_coordinate L self ''tf'' prec0 degree0 = Inr c"
  shows "trace_field L self prec0 degree0 =
     (case find_field L (s_approx_trace_field_gens self) (prec c) (degree c) True of
        None \<Rightarrow> (Inr None, self\<lparr> s_trace_field_prec_record :=
                               AList.update c False (s_trace_field_prec_record self) \<rparr>)
      | Some (K, numerical_root, gens) \<Rightarrow>
          (Inr (Some K),
           if s_invariant_trace_field self = None \<and> \<not> is_modtwo_homology_sphere L self
           then self\<lparr> s_trace_field_prec_record :=
                        AList.update c True (s_trace_field_prec_record self),
                      s_trace_field := Some K,
                      s_trace_field_numerical_root := Some numerical_root,
                      s_trace_field_generators := Some gens,
                      s_invariant_trace_field_prec_record :=
                        AList.update c True (s_invariant_trace_field_prec_record self),
                      s_invariant_trace_field := Some K,
                      s_invariant_trace_field_numerical_root := Some numerical_root,
                      s_invariant_trace_field_generators := Some gens \<rparr>
           else self\<lparr> s_trace_field_prec_record :=
                        AList.update c True (s_trace_field_prec_record self),
                      s_trace_field := Some K,
                      s_trace_field_numerical_root := Some numerical_root,
                      s_trace_field_generators := Some gens \<rparr>))"
  using assms
  by (auto simp: trace_field_def Let_def is_modtwo_homology_sphere_def split: option.splits)

lemma invariant_trace_field_attempt:
  assumes "\<not> (s_invariant_trace_field self \<noteq> None \<and> prec0 = None \<and> degree0 = None)"
    and "planned_coordinate L self ''itf'' prec0 degree0 = Inr c"
  shows "invariant_trace_field L self prec0 degree0 =
     (case find_field L (s_approx_invariant_trace_field_gens self) (prec c) (degree c) True of
        None \<Rightarrow> (Inr None, self\<lparr> s_invariant_trace_field_prec_record :=
                               AList.update c False (s_invariant_trace_field_prec_record self) \<rparr>)
      | Some (K, numerical_root, gens) \<Rightarrow>
          (Inr (Some K),
           self\<lparr> s_invariant_trace_field_prec_record :=
                   AList.update c True (s_invariant_trace_field_prec_record self),
                 s_invariant_trace_field := Some K,
                 s_invariant_trace_field_numerical_root := Some numerical_root,
                 s_invariant_trace_field_generators := Some gens \<rparr>))"
  using assms
  by (auto simp: invariant_trace_field_def Let_def split: option.splits)

lemma library_degree4_simps:
  "find_field library_degree4 = find_field_degree4"
  "elementary_divisors library_degree4 = elementary_divisors base_library"
  "nf_degree library_degree4 = nf_degree base_library"
  "express library_degree4 = express base_library"
  by (simp_all add: library_degree4_def)

lemma sphere_degree4:
  "is_modtwo_homology_sphere library_degree4 fresh_sphere"
  "\<not> is_modtwo_homology_sphere library_degree4 fresh_manifold"
  by (simp_all add: is_modtwo_homology_sphere_def library_degree4_simps base_library_def
        fresh_sphere_simps fresh_manifold_simps)

lemma planned_coordinate_fresh:
  "planned_coordinate L fresh_manifold ''tf'' None None = Inr (PrecDegreeTuple 1000 20)"
  "planned_coordinate L fresh_sphere ''tf'' None None = Inr (PrecDegreeTuple 1000 20)"
  by (rule planned_coordinate_planner, rule planner_empty[OF _ fix_names_tf],
      simp_all add: field_prec_record_def fresh_manifold_simps fresh_sphere_simps)+

text \<open>
  Claim C7. Let an attempt at the trace field at the coordinate \<open>c\<close> succeed. If the
  invariant trace field is unresolved and the manifold is not a mod-2-homology sphere,
  the attempt also stores the field, the numerical root and the exact generators as the
  invariant trace field and records a success at \<open>c\<close> in the record of the invariant
  trace field. If the manifold is a mod-2-homology sphere, or the invariant trace field
  is resolved, the invariant trace field and its record are left as they are.
\<close>

theorem trace_field_propagation:
  assumes "\<not> (s_trace_field self \<noteq> None \<and> prec0 = None \<and> degree0 = None)"
    and "planned_coordinate L self ''tf'' prec0 degree0 = Inr c"
    and "find_field L (s_approx_trace_field_gens self) (prec c) (degree c) True
           = Some (K, numerical_root, gens)"
  shows "let self' = snd (trace_field L self prec0 degree0) in
           fst (trace_field L self prec0 degree0) = Inr (Some K)
         \<and> (s_invariant_trace_field self = None \<and> \<not> is_modtwo_homology_sphere L self \<longrightarrow>
              s_invariant_trace_field self' = Some K
            \<and> s_invariant_trace_field_numerical_root self' = Some numerical_root
            \<and> s_invariant_trace_field_generators self' = Some gens
            \<and> s_invariant_trace_field_prec_record self'
                = AList.update c True (s_invariant_trace_field_prec_record self))
         \<and> (s_invariant_trace_field self \<noteq> None \<or> is_modtwo_homology_sphere L self \<longrightarrow>
              s_invariant_trace_field self' = s_invariant_trace_field self
            \<and> s_invariant_trace_field_numerical_root self'
                = s_invariant_trace_field_numerical_root self
            \<and> s_invariant_trace_field_generators self'
                = s_invariant_trace_field_generators self
            \<and> s_invariant_trace_field_prec_record self'
                = s_invariant_trace_field_prec_record self)"
  unfolding trace_field_attempt[OF assms(1,2)] assms(3) Let_def
  by auto

theorem trace_field_propagation_witness:
  "(let self' = snd (trace_field library_degree4 fresh_manifold None None) in
      fst (trace_field library_degree4 fresh_manifold None None) = Inr (Some (NumberField 4))
    \<and> s_invariant_trace_field self' = Some (NumberField 4)
    \<and> s_invariant_trace_field_numerical_root self' = Some (NumericalRoot 4)
    \<and> s_invariant_trace_field_generators self' = Some [ExactGenerator 0, ExactGenerator 0]
    \<and> s_invariant_trace_field_prec_record self' = [(PrecDegreeTuple 1000 20, True)])
 \<and> (let self' = snd (trace_field library_degree4 fresh_sphere None None) in
      fst (trace_field library_degree4 fresh_sphere None None) = Inr (Some (NumberField 4))
    \<and> s_invariant_trace_field self' = None
    \<and> s_invariant_trace_field_prec_record self' = [])"
proof -
  have a: "\<not> (s_trace_field fresh_manifold \<noteq> None \<and> (None::int option) = None \<and> (None::int option) = None)"
    by (simp add: fresh_manifold_simps)
  have b: "\<not> (s_trace_field fresh_sphere \<noteq> None \<and> (None::int option) = None \<and> (None::int option) = None)"
    by (simp add: fresh_sphere_simps)
  have f1: "find_field library_degree4 (s_approx_trace_field_gens fresh_manifold)
              (prec (PrecDegreeTuple 1000 20)) (degree (PrecDegreeTuple 1000 20)) True
            = Some (NumberField 4, NumericalRoot 4, [ExactGenerator 0, ExactGenerator 0])"
    by (simp add: library_degree4_simps find_field_degree4_def)
  have f2: "find_field library_degree4 (s_approx_trace_field_gens fresh_sphere)
              (prec (PrecDegreeTuple 1000 20)) (degree (PrecDegreeTuple 1000 20)) True
            = Some (NumberField 4, NumericalRoot 4, [ExactGenerator 0, ExactGenerator 0])"
    by (simp add: library_degree4_simps find_field_degree4_def)
  from trace_field_propagation[OF a planned_coordinate_fresh(1) f1]
       trace_field_propagation[OF b planned_coordinate_fresh(2) f2]
  show ?thesis
    using sphere_degree4 by (simp add: Let_def fresh_manifold_simps fresh_sphere_simps)
qed

subsection \<open>The loop over the epsilon coefficient\<close>

lemma hilbert_symbol_loop_leaves:
  "leaves_loop L self pwr prim prec1 eps
     \<Longrightarrow> hilbert_symbol_loop L self pwr prim prec1 eps \<noteq> None"
  by (subst hilbert_symbol_loop.simps) (auto simp: leaves_loop_def split: sum.splits)

lemma hilbert_symbol_loop_retry:
  "\<not> leaves_loop L self pwr prim prec1 eps
     \<Longrightarrow> hilbert_symbol_loop L self pwr prim prec1 eps
         = hilbert_symbol_loop L self pwr prim prec1 (eps * 10)"
  by (subst hilbert_symbol_loop.simps) (auto simp: leaves_loop_def split: sum.splits)

lemma hilbert_symbol_loop_returns:
  "leaves_loop L self pwr prim prec1 (eps * 10 ^ k)
     \<Longrightarrow> hilbert_symbol_loop L self pwr prim prec1 eps \<noteq> None"
proof (induction k arbitrary: eps)
  case 0
  then show ?case using hilbert_symbol_loop_leaves by simp
next
  case (Suc k)
  show ?case
  proof (cases "leaves_loop L self pwr prim prec1 eps")
    case True
    then show ?thesis by (rule hilbert_symbol_loop_leaves)
  next
    case False
    have "leaves_loop L self pwr prim prec1 (eps * 10 * 10 ^ k)"
      using Suc.prems by (simp add: mult.assoc)
    then have "hilbert_symbol_loop L self pwr prim prec1 (eps * 10) \<noteq> None"
      by (rule Suc.IH)
    then show ?thesis using hilbert_symbol_loop_retry[OF False] by simp
  qed
qed

lemma hilbert_symbol_loop_Some_leaves:
  assumes "hilbert_symbol_loop L self pwr prim prec1 eps = Some y"
  shows "\<exists>k. leaves_loop L self pwr prim prec1 (eps * 10 ^ k)"
proof (rule hilbert_symbol_loop.raw_induct
        [where P = "\<lambda>L self pwr prim prec1 eps y.
                     \<exists>k. leaves_loop L self pwr prim prec1 (eps * 10 ^ k)",
         OF _ assms], goal_cases)
  case (1 loop L self pwr prim prec1 eps y)
  show ?case
  proof (cases "leaves_loop L self pwr prim prec1 eps")
    case True
    then have "leaves_loop L self pwr prim prec1 (eps * 10 ^ 0)" by simp
    then show ?thesis by (rule exI)
  next
    case False
    with 1(2) have "loop L self pwr prim prec1 (eps * 10) = Some y"
      by (auto simp: leaves_loop_def split: sum.splits if_splits)
    from 1(1)[OF this] obtain k where "leaves_loop L self pwr prim prec1 (eps * 10 * 10 ^ k)"
      by blast
    then have "leaves_loop L self pwr prim prec1 (eps * 10 ^ Suc k)" by (simp add: mult.assoc)
    then show ?thesis by (rule exI)
  qed
qed

lemma hilbert_symbol_loop_diverges:
  "\<forall>k. \<not> leaves_loop L self pwr prim prec1 (eps * 10 ^ k)
     \<Longrightarrow> hilbert_symbol_loop L self pwr prim prec1 eps = None"
  using hilbert_symbol_loop_Some_leaves by (metis not_Some_eq)



lemma loop_iff:
  "(hilbert_symbol_loop L self pwr prim prec1 eps \<noteq> None)
     = (\<exists>k. leaves_loop L self pwr prim prec1 (eps * 10 ^ k))"
  using hilbert_symbol_loop_returns hilbert_symbol_loop_Some_leaves by (metis not_Some_eq)

lemma quaternion_algebra_resolved:
  assumes "\<not> (s_quaternion_algebra self \<noteq> None \<and> prec0 = None)"
    and "planned_precision L self ''qa'' prec0 = Inr prec1"
    and "s_trace_field self = Some K"
    and "s_trace_field_numerical_root self = Some prim"
  shows "quaternion_algebra L self prec0 =
     (case hilbert_symbol_loop L self 1 prim prec1 10 of
        None \<Rightarrow> None
      | Some (Inl e) \<Rightarrow> Some (Inl e, self)
      | Some (Inr (first_entry, second_entry)) \<Rightarrow>
          (case (first_entry, second_entry) of
             (Some e1, Some e2) \<Rightarrow>
               Some (Inr (Some (QuaternionAlgebraNF K (AtGenerator e1 K) (AtGenerator e2 K))),
                     self\<lparr> s_quaternion_algebra_prec_record :=
                             AList.update prec1 (truthy first_entry \<and> truthy second_entry)
                               (s_quaternion_algebra_prec_record self),
                           s_quaternion_algebra :=
                             Some (QuaternionAlgebraNF K (AtGenerator e1 K) (AtGenerator e2 K)) \<rparr>)
           | _ \<Rightarrow> Some (Inr None,
                     self\<lparr> s_quaternion_algebra_prec_record :=
                             AList.update prec1 (truthy first_entry \<and> truthy second_entry)
                               (s_quaternion_algebra_prec_record self) \<rparr>)))"
  using assms
  by (auto simp: quaternion_algebra_def Let_def split: option.splits sum.splits prod.splits)

lemma invariant_quaternion_algebra_resolved:
  assumes "\<not> (s_invariant_quaternion_algebra self \<noteq> None \<and> prec0 = None)"
    and "planned_precision L self ''iqa'' prec0 = Inr prec1"
    and "s_invariant_trace_field self = Some K"
    and "s_invariant_trace_field_numerical_root self = Some prim"
  shows "invariant_quaternion_algebra L self prec0 =
     (case hilbert_symbol_loop L self 2 prim prec1 10 of
        None \<Rightarrow> None
      | Some (Inl e) \<Rightarrow> Some (Inl e, self)
      | Some (Inr (first_entry, second_entry)) \<Rightarrow>
          (case (first_entry, second_entry) of
             (Some e1, Some e2) \<Rightarrow>
               Some (Inr (Some (QuaternionAlgebraNF K (AtGenerator e1 K) (AtGenerator e2 K))),
                     self\<lparr> s_invariant_quaternion_algebra_prec_record :=
                             AList.update prec1 (truthy first_entry \<and> truthy second_entry)
                               (s_invariant_quaternion_algebra_prec_record self),
                           s_invariant_quaternion_algebra :=
                             Some (QuaternionAlgebraNF K (AtGenerator e1 K) (AtGenerator e2 K)) \<rparr>)
           | _ \<Rightarrow> Some (Inr None,
                     self\<lparr> s_invariant_quaternion_algebra_prec_record :=
                             AList.update prec1 (truthy first_entry \<and> truthy second_entry)
                               (s_invariant_quaternion_algebra_prec_record self) \<rparr>)))"
  using assms
  by (auto simp: invariant_quaternion_algebra_def Let_def split: option.splits sum.splits prod.splits)

lemma planned_precision_Some [simp]: "planned_precision L self name (Some p) = Inr p"
  by (simp add: planned_precision_def)

lemma sphere_tf_known_simps:
  "s_trace_field sphere_tf_known = Some (NumberField 4)"
  "s_trace_field_numerical_root sphere_tf_known = Some (NumericalRoot 4)"
  "s_quaternion_algebra sphere_tf_known = None"
  "s_quaternion_algebra_prec_record sphere_tf_known = []"
  "s_snappy_mfld sphere_tf_known = SnapPyManifold 0"
  by (simp_all add: sphere_tf_known_def fresh_sphere_def init_def Let_def)

text \<open>
  Claim C3, as amended. The loop has no bound on its iterations and no error for
  exceeding one. Started with the coefficient \<open>e\<close>, it returns exactly when for some
  \<open>k\<close> the iteration with the coefficient \<open>e * 10 ^ k\<close> leaves it: neither entry is
  expressed as the zero element (or \<^verbatim>\<open>express\<close> raises). On a resolved field,
  \<^verbatim>\<open>quaternion_algebra\<close> and \<^verbatim>\<open>invariant_quaternion_algebra\<close> return exactly when this
  holds from the coefficient 10; otherwise the call never returns.
\<close>

theorem epsilon_loop_returns_iff:
  "(hilbert_symbol_loop L self pwr primitive_element prec1 epsilon_coefficient \<noteq> None)
      = (\<exists>k. leaves_loop L self pwr primitive_element prec1 (epsilon_coefficient * 10 ^ k))
 \<and> (\<not> (s_quaternion_algebra self \<noteq> None \<and> prec0 = None)
      \<and> planned_precision L self ''qa'' prec0 = Inr prec1
      \<and> s_trace_field self \<noteq> None
      \<and> s_trace_field_numerical_root self = Some primitive_element \<longrightarrow>
     (quaternion_algebra L self prec0 \<noteq> None)
       = (\<exists>k. leaves_loop L self 1 primitive_element prec1 (10 * 10 ^ k)))
 \<and> (\<not> (s_invariant_quaternion_algebra self \<noteq> None \<and> prec0 = None)
      \<and> planned_precision L self ''iqa'' prec0 = Inr prec1
      \<and> s_invariant_trace_field self \<noteq> None
      \<and> s_invariant_trace_field_numerical_root self = Some primitive_element \<longrightarrow>
     (invariant_quaternion_algebra L self prec0 \<noteq> None)
       = (\<exists>k. leaves_loop L self 2 primitive_element prec1 (10 * 10 ^ k)))"
proof (intro conjI impI)
  show "(hilbert_symbol_loop L self pwr primitive_element prec1 epsilon_coefficient \<noteq> None)
      = (\<exists>k. leaves_loop L self pwr primitive_element prec1 (epsilon_coefficient * 10 ^ k))"
    by (rule loop_iff)
next
  assume h: "\<not> (s_quaternion_algebra self \<noteq> None \<and> prec0 = None)
      \<and> planned_precision L self ''qa'' prec0 = Inr prec1
      \<and> s_trace_field self \<noteq> None
      \<and> s_trace_field_numerical_root self = Some primitive_element"
  then obtain K where K: "s_trace_field self = Some K" by auto
  from h have "quaternion_algebra L self prec0 \<noteq> None
      \<longleftrightarrow> hilbert_symbol_loop L self 1 primitive_element prec1 10 \<noteq> None"
    by (subst quaternion_algebra_resolved[OF _ _ K, of prec0 L prec1 primitive_element])
       (auto split: option.splits sum.splits prod.splits)
  then show "(quaternion_algebra L self prec0 \<noteq> None)
       = (\<exists>k. leaves_loop L self 1 primitive_element prec1 (10 * 10 ^ k))"
    unfolding loop_iff .
next
  assume h: "\<not> (s_invariant_quaternion_algebra self \<noteq> None \<and> prec0 = None)
      \<and> planned_precision L self ''iqa'' prec0 = Inr prec1
      \<and> s_invariant_trace_field self \<noteq> None
      \<and> s_invariant_trace_field_numerical_root self = Some primitive_element"
  then obtain K where K: "s_invariant_trace_field self = Some K" by auto
  from h have "invariant_quaternion_algebra L self prec0 \<noteq> None
      \<longleftrightarrow> hilbert_symbol_loop L self 2 primitive_element prec1 10 \<noteq> None"
    by (subst invariant_quaternion_algebra_resolved[OF _ _ K, of prec0 L prec1 primitive_element])
       (auto split: option.splits sum.splits prod.splits)
  then show "(invariant_quaternion_algebra L self prec0 \<noteq> None)
       = (\<exists>k. leaves_loop L self 2 primitive_element prec1 (10 * 10 ^ k))"
    unfolding loop_iff .
qed

lemma leaves_loop_separating:
  "leaves_loop library_separating sphere_tf_known 1 (NumericalRoot 4) 1000 eps = (\<not> nat eps < 1000)"
  by (simp add: leaves_loop_def library_separating_def base_library_def
        compute_approximate_hilbert_symbol_def defining_function_def approximate_trace_def
        Let_def)

theorem epsilon_loop_returns_iff_witness:
  "\<not> leaves_loop library_separating sphere_tf_known 1 (NumericalRoot 4) 1000 10
 \<and> \<not> leaves_loop library_separating sphere_tf_known 1 (NumericalRoot 4) 1000 100
 \<and> leaves_loop library_separating sphere_tf_known 1 (NumericalRoot 4) 1000 1000
 \<and> quaternion_algebra library_separating sphere_tf_known (Some 1000) \<noteq> None"
proof -
  have h: "\<not> (s_quaternion_algebra sphere_tf_known \<noteq> None \<and> Some 1000 = None)
      \<and> planned_precision library_separating sphere_tf_known ''qa'' (Some 1000) = Inr 1000
      \<and> s_trace_field sphere_tf_known \<noteq> None
      \<and> s_trace_field_numerical_root sphere_tf_known = Some (NumericalRoot 4)"
    by (simp add: sphere_tf_known_simps)
  have l: "leaves_loop library_separating sphere_tf_known 1 (NumericalRoot 4) 1000 (10 * 10 ^ 2)"
    by (simp add: leaves_loop_separating)
  then have e: "\<exists>k. leaves_loop library_separating sphere_tf_known 1 (NumericalRoot 4) 1000 (10 * 10 ^ k)"
    by (rule exI)
  from epsilon_loop_returns_iff[where L=library_separating and self=sphere_tf_known
      and ?prec0.0="Some 1000" and ?prec1.0=1000 and primitive_element="NumericalRoot 4",
      THEN conjunct2, THEN conjunct1, rule_format, OF h] e
  have "quaternion_algebra library_separating sphere_tf_known (Some 1000) \<noteq> None" by blast
  then show ?thesis by (simp add: leaves_loop_separating)
qed

lemma leaves_loop_zero:
  "\<not> leaves_loop library_zero self pwr prim prec1 eps"
  by (simp add: leaves_loop_def library_zero_def)

text \<open>
  Claim C3, as stated, fails: when \<^verbatim>\<open>express\<close> returns the zero element for every
  coefficient, the call of \<^verbatim>\<open>quaternion_algebra\<close> on a resolved trace field never
  returns; it raises no error.
\<close>

theorem epsilon_loop_unbounded_counterexample:
  "quaternion_algebra library_zero sphere_tf_known (Some 1000) = None"
proof -
  have "hilbert_symbol_loop library_zero sphere_tf_known 1 (NumericalRoot 4) 1000 10 = None"
    by (rule hilbert_symbol_loop_diverges) (simp add: leaves_loop_zero)
  then show ?thesis
    by (subst quaternion_algebra_resolved[where ?prec1.0=1000 and K="NumberField 4"
          and prim="NumericalRoot 4"])
       (simp_all add: sphere_tf_known_simps)
qed

subsection \<open>The algebra methods on an unresolved field\<close>

lemma quaternion_algebra_unresolved:
  assumes "\<not> (s_quaternion_algebra self \<noteq> None \<and> prec0 = None)"
    and "planned_precision L self ''qa'' prec0 = Inr prec1"
    and "s_trace_field self = None"
  shows "quaternion_algebra L self prec0 =
     (case trace_field L self (Some prec1) None of
        (Inl e, self1) \<Rightarrow> Some (Inl e, self1)
      | (Inr None, self1) \<Rightarrow> Some (Inr None, self1)
      | (Inr (Some K), self1) \<Rightarrow> quaternion_algebra L self1 (Some prec1))"
proof (cases "trace_field L self (Some prec1) None")
  case (Pair r self1)
  have nc: "\<not> (s_trace_field self \<noteq> None \<and> Some prec1 = None \<and> (None::int option) = None)" by simp
  show ?thesis
  proof (cases "planned_coordinate L self ''tf'' (Some prec1) None")
    case (Inl e)
    then have "trace_field L self (Some prec1) None = (Inl e, self)"
      by (simp add: trace_field_def assms(3))
    then show ?thesis using assms by (auto simp add: quaternion_algebra_def)
  next
    case (Inr c)
    note a = trace_field_attempt[OF nc Inr]
    show ?thesis
    proof (cases "find_field L (s_approx_trace_field_gens self) (prec c) (degree c) True")
      case None
      then show ?thesis using assms a by (auto simp add: quaternion_algebra_def)
    next
      case (Some t)
      obtain K nr g where t: "t = (K, nr, g)" by (cases t)
      obtain self1 where tf: "trace_field L self (Some prec1) None = (Inr (Some K), self1)"
        using a Some t by simp
      have s1: "s_trace_field self1 = Some K"
        using a Some t tf by (auto split: if_splits)
      let ?tail = "case s_trace_field_numerical_root self1 of
                 None \<Rightarrow> Some (Inl AttributeError, self1)
               | Some primitive_element \<Rightarrow>
                 (case hilbert_symbol_loop L self1 1 primitive_element prec1 10 of
                    None \<Rightarrow> None
                  | Some (Inl e) \<Rightarrow> Some (Inl e, self1)
                  | Some (Inr (first_entry, second_entry)) \<Rightarrow>
                    let self2 = self1\<lparr> s_quaternion_algebra_prec_record :=
                                  AList.update prec1 (truthy first_entry \<and> truthy second_entry)
                                    (s_quaternion_algebra_prec_record self1) \<rparr>
                    in (case (first_entry, second_entry) of
                          (Some e1, Some e2) \<Rightarrow>
                            let K = the (s_trace_field self2);
                                self3 = self2\<lparr> s_quaternion_algebra :=
                                  Some (QuaternionAlgebraNF K (AtGenerator e1 K)
                                          (AtGenerator e2 K)) \<rparr>
                            in Some (Inr (s_quaternion_algebra self3), self3)
                        | _ \<Rightarrow> Some (Inr None, self2)))"
      have upd: "self1\<lparr> s_trace_field := Some K \<rparr> = self1"
        using s1 by simp
      have lhs: "quaternion_algebra L self prec0 = ?tail"
        unfolding quaternion_algebra_def using assms by (auto simp: tf upd)
      have rhs: "quaternion_algebra L self1 (Some prec1) = ?tail"
        unfolding quaternion_algebra_def using s1 by simp
      show ?thesis
        unfolding tf by (simp add: lhs rhs)
    qed
  qed
qed

lemma invariant_quaternion_algebra_unresolved:
  assumes "\<not> (s_invariant_quaternion_algebra self \<noteq> None \<and> prec0 = None)"
    and "planned_precision L self ''iqa'' prec0 = Inr prec1"
    and "s_invariant_trace_field self = None"
  shows "invariant_quaternion_algebra L self prec0 =
     (case invariant_trace_field L self (Some prec1) None of
        (Inl e, self1) \<Rightarrow> Some (Inl e, self1)
      | (Inr None, self1) \<Rightarrow> Some (Inr None, self1)
      | (Inr (Some K), self1) \<Rightarrow> invariant_quaternion_algebra L self1 (Some prec1))"
proof (cases "invariant_trace_field L self (Some prec1) None")
  case (Pair r self1)
  have nc: "\<not> (s_invariant_trace_field self \<noteq> None \<and> Some prec1 = None \<and> (None::int option) = None)" by simp
  show ?thesis
  proof (cases "planned_coordinate L self ''itf'' (Some prec1) None")
    case (Inl e)
    then have "invariant_trace_field L self (Some prec1) None = (Inl e, self)"
      by (simp add: invariant_trace_field_def assms(3))
    then show ?thesis using assms by (auto simp add: invariant_quaternion_algebra_def)
  next
    case (Inr c)
    note a = invariant_trace_field_attempt[OF nc Inr]
    show ?thesis
    proof (cases "find_field L (s_approx_invariant_trace_field_gens self) (prec c) (degree c) True")
      case None
      then show ?thesis using assms a by (auto simp add: invariant_quaternion_algebra_def)
    next
      case (Some t)
      obtain K nr g where t: "t = (K, nr, g)" by (cases t)
      obtain self1 where tf: "invariant_trace_field L self (Some prec1) None = (Inr (Some K), self1)"
        using a Some t by simp
      have s1: "s_invariant_trace_field self1 = Some K"
        using a Some t tf by (auto split: if_splits)
      let ?tail = "case s_invariant_trace_field_numerical_root self1 of
                 None \<Rightarrow> Some (Inl AttributeError, self1)
               | Some primitive_element \<Rightarrow>
                 (case hilbert_symbol_loop L self1 2 primitive_element prec1 10 of
                    None \<Rightarrow> None
                  | Some (Inl e) \<Rightarrow> Some (Inl e, self1)
                  | Some (Inr (first_entry, second_entry)) \<Rightarrow>
                    let self2 = self1\<lparr> s_invariant_quaternion_algebra_prec_record :=
                                  AList.update prec1 (truthy first_entry \<and> truthy second_entry)
                                    (s_invariant_quaternion_algebra_prec_record self1) \<rparr>
                    in (case (first_entry, second_entry) of
                          (Some e1, Some e2) \<Rightarrow>
                            let K = the (s_invariant_trace_field self2);
                                self3 = self2\<lparr> s_invariant_quaternion_algebra :=
                                  Some (QuaternionAlgebraNF K (AtGenerator e1 K)
                                          (AtGenerator e2 K)) \<rparr>
                            in Some (Inr (s_invariant_quaternion_algebra self3), self3)
                        | _ \<Rightarrow> Some (Inr None, self2)))"
      have upd: "self1\<lparr> s_invariant_trace_field := Some K \<rparr> = self1"
        using s1 by simp
      have lhs: "invariant_quaternion_algebra L self prec0 = ?tail"
        unfolding invariant_quaternion_algebra_def using assms by (auto simp: tf upd)
      have rhs: "invariant_quaternion_algebra L self1 (Some prec1) = ?tail"
        unfolding invariant_quaternion_algebra_def using s1 by simp
      show ?thesis
        unfolding tf by (simp add: lhs rhs)
    qed
  qed
qed

lemma planner_algebra_empty:
  assumes "prec_increment \<noteq> 0"
    and "fix_names name = Inr kind"
    and "kind = ''quaternion algebra'' \<or> kind = ''invariant quaternion algebra''"
    and "algebra_prec_record self kind = []"
    and "next_prec_and_degree L self
           (if kind = ''quaternion algebra'' then ''trace field'' else ''invariant trace field'')
           1000 20 5000 5 = Inr (PD c)"
  shows "next_prec_and_degree L self name sp sd prec_increment di = Inr (P (prec c))"
  apply (subst next_prec_and_degree.simps)
  using assms by (auto simp add: Let_def)

lemma fresh_algebra_simps:
  "s_quaternion_algebra fresh_manifold = None"
  "s_invariant_quaternion_algebra fresh_manifold = None"
  "s_quaternion_algebra_prec_record fresh_manifold = []"
  "s_invariant_quaternion_algebra_prec_record fresh_manifold = []"
  "s_quaternion_algebra fresh_sphere = None"
  "s_invariant_quaternion_algebra fresh_sphere = None"
  "s_quaternion_algebra_prec_record fresh_sphere = []"
  "s_invariant_quaternion_algebra_prec_record fresh_sphere = []"
  by (simp_all add: fresh_manifold_def fresh_sphere_def init_def Let_def)

lemma planner_empty_records:
  assumes "s_trace_field_prec_record self = []" "s_invariant_trace_field_prec_record self = []"
    "s_quaternion_algebra_prec_record self = []" "s_invariant_quaternion_algebra_prec_record self = []"
  shows "next_prec_and_degree L self ''tf'' 1000 20 5000 5 = Inr (PD (PrecDegreeTuple 1000 20))"
    and "next_prec_and_degree L self ''itf'' 1000 20 5000 5 = Inr (PD (PrecDegreeTuple 1000 20))"
    and "next_prec_and_degree L self ''qa'' 1000 20 5000 5 = Inr (P 1000)"
    and "next_prec_and_degree L self ''iqa'' 1000 20 5000 5 = Inr (P 1000)"
proof -
  have t: "next_prec_and_degree L self ''trace field'' 1000 20 5000 5
             = Inr (PD (PrecDegreeTuple 1000 20))"
    by (rule planner_empty[OF _ fix_names_trace_field]) (simp_all add: field_prec_record_def assms)
  have i: "next_prec_and_degree L self ''invariant trace field'' 1000 20 5000 5
             = Inr (PD (PrecDegreeTuple 1000 20))"
    by (rule planner_empty[OF _ fix_names_invariant_trace_field])
       (simp_all add: field_prec_record_def assms)
  show "next_prec_and_degree L self ''tf'' 1000 20 5000 5 = Inr (PD (PrecDegreeTuple 1000 20))"
    by (rule planner_empty[OF _ fix_names_tf]) (simp_all add: field_prec_record_def assms)
  show "next_prec_and_degree L self ''itf'' 1000 20 5000 5 = Inr (PD (PrecDegreeTuple 1000 20))"
    by (rule planner_empty[OF _ fix_names_itf]) (simp_all add: field_prec_record_def assms)
  show "next_prec_and_degree L self ''qa'' 1000 20 5000 5 = Inr (P 1000)"
    using planner_algebra_empty[OF _ fix_names_qa, of 5000 self L "PrecDegreeTuple 1000 20" 1000 20 5] t
    by (simp add: algebra_prec_record_def assms)
  show "next_prec_and_degree L self ''iqa'' 1000 20 5000 5 = Inr (P 1000)"
    using planner_algebra_empty[OF _ fix_names_iqa, of 5000 self L "PrecDegreeTuple 1000 20" 1000 20 5] i
    by (simp add: algebra_prec_record_def assms)
qed

lemmas planner_fresh = planner_empty_records[OF fresh_manifold_simps(1,2) fresh_algebra_simps(3,4)]

lemmas planner_fresh_sphere = planner_empty_records[OF fresh_sphere_simps(1,2) fresh_algebra_simps(7,8)]

text \<open>
  Claim C10. When the trace field is unresolved, \<^verbatim>\<open>quaternion_algebra\<close> first makes an
  attempt at the trace field at the precision of the call (the argument, or the planner's
  precision for the algebra). If that attempt fails the call returns \<^verbatim>\<open>None\<close>, raises
  nothing and writes nothing to the record of the algebra; if it succeeds the call goes
  on as a call at that precision on the object with its trace field resolved, which runs
  the search for the Hilbert symbol. The same holds for
  \<^verbatim>\<open>invariant_quaternion_algebra\<close> and the invariant trace field.
\<close>

theorem algebra_resolves_field_first:
  "(\<not> (s_quaternion_algebra self \<noteq> None \<and> prec0 = None)
      \<and> planned_precision L self ''qa'' prec0 = Inr prec1
      \<and> s_trace_field self = None \<longrightarrow>
      (let attempt = trace_field L self (Some prec1) None in
         (fst attempt = Inr None \<longrightarrow>
            quaternion_algebra L self prec0 = Some (Inr None, snd attempt)
          \<and> s_quaternion_algebra_prec_record (snd attempt) = s_quaternion_algebra_prec_record self)
       \<and> (\<forall>K. fst attempt = Inr (Some K) \<longrightarrow>
            quaternion_algebra L self prec0 = quaternion_algebra L (snd attempt) (Some prec1))))
 \<and> (\<not> (s_invariant_quaternion_algebra self \<noteq> None \<and> prec0 = None)
      \<and> planned_precision L self ''iqa'' prec0 = Inr prec2
      \<and> s_invariant_trace_field self = None \<longrightarrow>
      (let attempt = invariant_trace_field L self (Some prec2) None in
         (fst attempt = Inr None \<longrightarrow>
            invariant_quaternion_algebra L self prec0 = Some (Inr None, snd attempt)
          \<and> s_invariant_quaternion_algebra_prec_record (snd attempt)
              = s_invariant_quaternion_algebra_prec_record self)
       \<and> (\<forall>K. fst attempt = Inr (Some K) \<longrightarrow>
            invariant_quaternion_algebra L self prec0
              = invariant_quaternion_algebra L (snd attempt) (Some prec2))))"
proof (intro conjI impI)
  assume h: "\<not> (s_quaternion_algebra self \<noteq> None \<and> prec0 = None)
      \<and> planned_precision L self ''qa'' prec0 = Inr prec1
      \<and> s_trace_field self = None"
  then have u: "quaternion_algebra L self prec0 =
     (case trace_field L self (Some prec1) None of
        (Inl e, self1) \<Rightarrow> Some (Inl e, self1)
      | (Inr None, self1) \<Rightarrow> Some (Inr None, self1)
      | (Inr (Some K), self1) \<Rightarrow> quaternion_algebra L self1 (Some prec1))"
    by (intro quaternion_algebra_unresolved) blast+
  have r: "fst (trace_field L self (Some prec1) None) = Inr None \<Longrightarrow>
           s_quaternion_algebra_prec_record (snd (trace_field L self (Some prec1) None))
             = s_quaternion_algebra_prec_record self"
    using h by (auto simp: trace_field_def Let_def split: sum.splits option.splits)
  show "let attempt = trace_field L self (Some prec1) None in
         (fst attempt = Inr None \<longrightarrow>
            quaternion_algebra L self prec0 = Some (Inr None, snd attempt)
          \<and> s_quaternion_algebra_prec_record (snd attempt) = s_quaternion_algebra_prec_record self)
       \<and> (\<forall>K. fst attempt = Inr (Some K) \<longrightarrow>
            quaternion_algebra L self prec0 = quaternion_algebra L (snd attempt) (Some prec1))"
    unfolding Let_def using r
    by (cases "trace_field L self (Some prec1) None") (auto simp: u)
next
  assume h: "\<not> (s_invariant_quaternion_algebra self \<noteq> None \<and> prec0 = None)
      \<and> planned_precision L self ''iqa'' prec0 = Inr prec2
      \<and> s_invariant_trace_field self = None"
  then have u: "invariant_quaternion_algebra L self prec0 =
     (case invariant_trace_field L self (Some prec2) None of
        (Inl e, self1) \<Rightarrow> Some (Inl e, self1)
      | (Inr None, self1) \<Rightarrow> Some (Inr None, self1)
      | (Inr (Some K), self1) \<Rightarrow> invariant_quaternion_algebra L self1 (Some prec2))"
    by (intro invariant_quaternion_algebra_unresolved) blast+
  have r: "fst (invariant_trace_field L self (Some prec2) None) = Inr None \<Longrightarrow>
           s_invariant_quaternion_algebra_prec_record
              (snd (invariant_trace_field L self (Some prec2) None))
             = s_invariant_quaternion_algebra_prec_record self"
    using h by (auto simp: invariant_trace_field_def Let_def split: sum.splits option.splits)
  show "let attempt = invariant_trace_field L self (Some prec2) None in
         (fst attempt = Inr None \<longrightarrow>
            invariant_quaternion_algebra L self prec0 = Some (Inr None, snd attempt)
          \<and> s_invariant_quaternion_algebra_prec_record (snd attempt)
              = s_invariant_quaternion_algebra_prec_record self)
       \<and> (\<forall>K. fst attempt = Inr (Some K) \<longrightarrow>
            invariant_quaternion_algebra L self prec0
              = invariant_quaternion_algebra L (snd attempt) (Some prec2))"
    unfolding Let_def using r
    by (cases "invariant_trace_field L self (Some prec2) None") (auto simp: u)
qed

theorem algebra_resolves_field_first_witness:
  "quaternion_algebra base_library fresh_manifold None
     = Some (Inr None, fresh_manifold\<lparr> s_trace_field_prec_record :=
                          [(PrecDegreeTuple 1000 20, False)] \<rparr>)
 \<and> invariant_quaternion_algebra base_library fresh_manifold None
     = Some (Inr None, fresh_manifold\<lparr> s_invariant_trace_field_prec_record :=
                          [(PrecDegreeTuple 1000 20, False)] \<rparr>)
 \<and> fst (trace_field library_degree4 fresh_sphere (Some 1000) None) = Inr (Some (NumberField 4))
 \<and> quaternion_algebra library_degree4 fresh_sphere None
     = quaternion_algebra library_degree4
         (snd (trace_field library_degree4 fresh_sphere (Some 1000) None)) (Some 1000)"
proof -
  note t = algebra_resolves_field_first[where self=fresh_manifold and L=base_library
      and ?prec0.0=None and ?prec1.0=1000 and ?prec2.0=1000]
  have pq: "\<And>L. planned_precision L fresh_manifold ''qa'' None = Inr 1000"
           "\<And>L. planned_precision L fresh_manifold ''iqa'' None = Inr 1000"
           "\<And>L. planned_precision L fresh_sphere ''qa'' None = Inr 1000"
    by (simp_all add: planned_precision_def planner_fresh planner_fresh_sphere)
  have pc: "\<And>L. planned_coordinate L fresh_manifold ''tf'' (Some 1000) None = Inr (PrecDegreeTuple 1000 20)"
           "\<And>L. planned_coordinate L fresh_manifold ''itf'' (Some 1000) None = Inr (PrecDegreeTuple 1000 20)"
           "\<And>L. planned_coordinate L fresh_sphere ''tf'' (Some 1000) None = Inr (PrecDegreeTuple 1000 20)"
    by (simp_all add: planned_coordinate_def planner_fresh planner_fresh_sphere)
  have a1: "trace_field base_library fresh_manifold (Some 1000) None
       = (Inr None, fresh_manifold\<lparr> s_trace_field_prec_record := [(PrecDegreeTuple 1000 20, False)] \<rparr>)"
    by (subst trace_field_failure[OF _ pc(1)])
       (simp_all add: fresh_manifold_simps base_library_find_field)
  have a2: "invariant_trace_field base_library fresh_manifold (Some 1000) None
       = (Inr None, fresh_manifold\<lparr> s_invariant_trace_field_prec_record := [(PrecDegreeTuple 1000 20, False)] \<rparr>)"
    by (subst invariant_trace_field_failure[OF _ pc(2)])
       (simp_all add: fresh_manifold_simps base_library_find_field)
  have h1: "\<not> (s_quaternion_algebra fresh_manifold \<noteq> None \<and> (None::int option) = None)
      \<and> planned_precision base_library fresh_manifold ''qa'' None = Inr 1000
      \<and> s_trace_field fresh_manifold = None"
    by (simp add: fresh_algebra_simps fresh_manifold_simps pq)
  have h2: "\<not> (s_invariant_quaternion_algebra fresh_manifold \<noteq> None \<and> (None::int option) = None)
      \<and> planned_precision base_library fresh_manifold ''iqa'' None = Inr 1000
      \<and> s_invariant_trace_field fresh_manifold = None"
    by (simp add: fresh_algebra_simps fresh_manifold_simps pq)
  have 1: "quaternion_algebra base_library fresh_manifold None
     = Some (Inr None, fresh_manifold\<lparr> s_trace_field_prec_record :=
                          [(PrecDegreeTuple 1000 20, False)] \<rparr>)"
    using t[THEN conjunct1, rule_format, OF h1] by (simp add: a1 Let_def)
  have 2: "invariant_quaternion_algebra base_library fresh_manifold None
     = Some (Inr None, fresh_manifold\<lparr> s_invariant_trace_field_prec_record :=
                          [(PrecDegreeTuple 1000 20, False)] \<rparr>)"
    using t[THEN conjunct2, rule_format, OF h2] by (simp add: a2 Let_def)
  have h3: "\<not> (s_quaternion_algebra fresh_sphere \<noteq> None \<and> (None::int option) = None)
      \<and> planned_precision library_degree4 fresh_sphere ''qa'' None = Inr 1000
      \<and> s_trace_field fresh_sphere = None"
    by (simp add: fresh_algebra_simps fresh_sphere_simps pq)
  have nc: "\<not> (s_trace_field fresh_sphere \<noteq> None \<and> Some (1000::int) = None \<and> (None::int option) = None)"
    by simp
  have 3: "fst (trace_field library_degree4 fresh_sphere (Some 1000) None) = Inr (Some (NumberField 4))"
    by (subst trace_field_attempt[OF nc pc(3)])
       (simp add: library_degree4_simps find_field_degree4_def)
  have 4: "quaternion_algebra library_degree4 fresh_sphere None
     = quaternion_algebra library_degree4
         (snd (trace_field library_degree4 fresh_sphere (Some 1000) None)) (Some 1000)"
    using algebra_resolves_field_first[where self=fresh_sphere and L=library_degree4
      and ?prec0.0=None and ?prec1.0=1000, THEN conjunct1, rule_format, OF h3] 3
    by (simp add: Let_def)
  from 1 2 3 4 show ?thesis by blast
qed

subsection \<open>Arithmeticity\<close>

text \<open>
  Claim C9. When the invariant trace field, the invariant quaternion algebra and the set
  of denominators are all known, \<^verbatim>\<open>is_arithmetic\<close> returns true exactly when the number
  of real places at which the algebra ramifies equals the number of real places of the
  field, the field has one complex place and the set of denominators is empty, and false
  otherwise; when one of the three is unknown it returns \<^verbatim>\<open>None\<close>.
\<close>

theorem is_arithmetic_criterion:
  "(s_invariant_trace_field self = Some K
      \<and> s_invariant_quaternion_algebra self = Some A
      \<and> s_denominators self = Some D \<longrightarrow>
      is_arithmetic L self
        = Some (int (length (ramified_real_places L A)) = fst (nf_signature L K)
                \<and> snd (nf_signature L K) = 1
                \<and> D = {}))
 \<and> (s_invariant_trace_field self = None
      \<or> s_invariant_quaternion_algebra self = None
      \<or> s_denominators self = None \<longrightarrow>
      is_arithmetic L self = None)"
  by (auto simp: is_arithmetic_def Let_def split: prod.splits)

theorem is_arithmetic_criterion_witness:
  "is_arithmetic base_library arithmetic_example = Some True
 \<and> is_arithmetic library_unramified arithmetic_example = Some False
 \<and> is_arithmetic base_library fresh_manifold = None"
proof -
  let ?A = "QuaternionAlgebraNF (NumberField 3)
                   (AtGenerator (Polynomial [1]) (NumberField 3))
                   (AtGenerator (Polynomial [1]) (NumberField 3))"
  have h: "s_invariant_trace_field arithmetic_example = Some (NumberField 3)
      \<and> s_invariant_quaternion_algebra arithmetic_example = Some ?A
      \<and> s_denominators arithmetic_example = Some {}"
    by (simp add: arithmetic_example_def)
  have n: "s_invariant_trace_field fresh_manifold = None
      \<or> s_invariant_quaternion_algebra fresh_manifold = None
      \<or> s_denominators fresh_manifold = None"
    by (simp add: fresh_manifold_simps)
  from is_arithmetic_criterion[of arithmetic_example "NumberField 3" ?A "{}" base_library,
          THEN conjunct1, rule_format, OF h]
  have 1: "is_arithmetic base_library arithmetic_example = Some True"
    by (simp add: base_library_def)
  from is_arithmetic_criterion[of arithmetic_example "NumberField 3" ?A "{}" library_unramified,
          THEN conjunct1, rule_format, OF h]
  have 2: "is_arithmetic library_unramified arithmetic_example = Some False"
    by (simp add: base_library_def library_unramified_def)
  from is_arithmetic_criterion[of fresh_manifold _ _ _ base_library,
          THEN conjunct2, rule_format, OF n]
  have 3: "is_arithmetic base_library fresh_manifold = None" .
  from 1 2 3 show ?thesis by blast
qed

subsection \<open>What an attempt writes\<close>











subsection \<open>Comparing denominators\<close>

lemma trace_field_cached:
  "s_trace_field self = Some K \<Longrightarrow> trace_field L self None None = (Inr (Some K), self)"
  by (simp add: trace_field_def)




lemma denominators_cached:
  "s_denominators self = Some D \<Longrightarrow> denominators L self = (Some D, self)"
  by (simp add: denominators_def)

lemma same_denominators_resolved:
  assumes "s_trace_field self = Some KA" and "s_trace_field other = Some KB"
    and "s_denominators self = Some DA" and "s_denominators other = Some DB"
  shows "same_denominators L self other =
     ((if s_denominator_residue_characteristics self
           \<noteq> s_denominator_residue_characteristics other then Inr False
       else if KA = KB then Inr (DA = DB)
       else if \<not> nf_is_isomorphic L KA KB then Inr False
       else
         (case next_prec_and_degree L self ''tf'' 1000 20 5000 5 of
            Inl e \<Rightarrow> Inl e
          | Inr prec_self \<Rightarrow>
            (case next_prec_and_degree L other ''tf'' 1000 20 5000 5 of
               Inl e \<Rightarrow> Inl e
             | Inr prec_other \<Rightarrow>
               (case py_max2 prec_self prec_other of
                  Inl e \<Rightarrow> Inl e
                | Inr prec1 \<Rightarrow>
                  (case anchored_isomorphism L KA KB (s_trace_field_numerical_root self)
                          (s_trace_field_numerical_root other)
                          (s_approx_trace_field_gens other) prec1 of
                     Inl e \<Rightarrow> Inl e
                   | Inr special_iso \<Rightarrow> Inr (DA = iso_apply L special_iso ` DB)))))),
      self, other)"
  using assms
  by (simp add: same_denominators_def trace_field_cached denominators_cached
        cong: sum.case_cong)

lemma integral_sphere_simps:
  "s_trace_field integral_sphere = Some (NumberField 4)"
  "s_trace_field_numerical_root integral_sphere = Some (NumericalRoot 4)"
  "s_trace_field_prec_record integral_sphere = [(PrecDegreeTuple 1000 20, True)]"
  "s_denominators integral_sphere = Some {}"
  "s_denominator_residue_characteristics integral_sphere = Some {}"
  by (simp_all add: integral_sphere_def sphere_tf_known_def)

lemma integral_manifold_simps:
  "s_trace_field integral_manifold = Some (NumberField 14)"
  "s_trace_field_numerical_root integral_manifold = Some (NumericalRoot 14)"
  "s_trace_field_prec_record integral_manifold = [(PrecDegreeTuple 1000 20, True)]"
  "s_denominators integral_manifold = Some {}"
  "s_denominator_residue_characteristics integral_manifold = Some {}"
  "s_approx_trace_field_gens integral_manifold = ApproxGens 4"
  by (simp_all add: integral_manifold_def fresh_manifold_simps)

lemma planner_single_success:
  assumes "s_trace_field_prec_record self = [(PrecDegreeTuple p d, True)]"
  shows "next_prec_and_degree L self ''tf'' 1000 20 5000 5 = Inr (PD (PrecDegreeTuple p d))"
proof -
  have S: "{k. map_of [(PrecDegreeTuple p d, True)] k = Some True} = {PrecDegreeTuple p d}"
    by (auto split: if_splits)
  have "map_of (field_prec_record self ''trace field'') (PrecDegreeTuple p d) = Some True"
    by (simp add: field_prec_record_def assms)
  from planner_success[OF _ fix_names_tf _ this, of 5000 L 1000 20 5]
  show ?thesis by (simp add: field_prec_record_def assms S)
qed

lemma base_library_anchored:
  "anchored_isomorphism base_library K K' (Some a) (Some b) g pr = Inr (FieldIso 0)"
  by (simp add: anchored_isomorphism_def express_all_def base_library_def)

text \<open>
  Claim C2, as amended. Let both trace fields be resolved and both sets of denominators
  be known. Then \<^verbatim>\<open>_same_denominators\<close> changes neither object. It returns false when
  the two sets of residue characteristics differ, and when the trace fields are neither
  equal nor isomorphic. When the trace fields are equal it returns true exactly when the
  two sets of prime ideals are equal (the residue characteristics being those computed
  from the denominators). When the trace fields are isomorphic and not equal, it returns
  no conventional false: it carries the set of the other manifold through the special
  isomorphism and compares; with both sets empty the result is true, or the exception a
  collaborator raised.
\<close>

theorem same_denominators_comparison:
  assumes "s_trace_field self = Some KA" and "s_trace_field other = Some KB"
    and "s_denominators self = Some DA" and "s_denominators other = Some DB"
  shows "snd (same_denominators L self other) = (self, other)
   \<and> (s_denominator_residue_characteristics self
         \<noteq> s_denominator_residue_characteristics other \<longrightarrow>
        fst (same_denominators L self other) = Inr False)
   \<and> (KA \<noteq> KB \<and> \<not> nf_is_isomorphic L KA KB \<longrightarrow>
        fst (same_denominators L self other) = Inr False)
   \<and> (KA = KB
        \<and> s_denominator_residue_characteristics self
            = Some (find_prime_factors_in_a_set L (absolute_norm L ` DA))
        \<and> s_denominator_residue_characteristics other
            = Some (find_prime_factors_in_a_set L (absolute_norm L ` DB)) \<longrightarrow>
        fst (same_denominators L self other) = Inr (DA = DB))
   \<and> (KA \<noteq> KB \<and> nf_is_isomorphic L KA KB
        \<and> s_denominator_residue_characteristics self
            = s_denominator_residue_characteristics other \<longrightarrow>
        (\<forall>pa pb prec1 special_iso.
           next_prec_and_degree L self ''tf'' 1000 20 5000 5 = Inr pa
           \<and> next_prec_and_degree L other ''tf'' 1000 20 5000 5 = Inr pb
           \<and> py_max2 pa pb = Inr prec1
           \<and> anchored_isomorphism L KA KB (s_trace_field_numerical_root self)
                (s_trace_field_numerical_root other) (s_approx_trace_field_gens other) prec1
               = Inr special_iso \<longrightarrow>
           fst (same_denominators L self other) = Inr (DA = iso_apply L special_iso ` DB))
      \<and> (DA = {} \<and> DB = {} \<longrightarrow>
           fst (same_denominators L self other) = Inr True
           \<or> (\<exists>e. fst (same_denominators L self other) = Inl e)))"
  unfolding same_denominators_resolved[OF assms]
  by (auto split: sum.splits)

theorem same_denominators_comparison_witness:
  "fst (same_denominators base_library integral_sphere integral_sphere) = Inr True
 \<and> fst (same_denominators base_library integral_sphere
          (integral_manifold\<lparr> s_trace_field := Some (NumberField 3) \<rparr>)) = Inr False
 \<and> (fst (same_denominators base_library integral_sphere integral_manifold) = Inr True
    \<or> (\<exists>e. fst (same_denominators base_library integral_sphere integral_manifold) = Inl e))
 \<and> snd (same_denominators base_library integral_sphere integral_manifold)
     = (integral_sphere, integral_manifold)"
proof -
  note a = integral_sphere_simps(1) and da = integral_sphere_simps(4)
  note b = integral_manifold_simps(1) and db = integral_manifold_simps(4)
  have c: "s_trace_field (integral_manifold\<lparr> s_trace_field := Some (NumberField 3) \<rparr>)
             = Some (NumberField 3)" by simp
  have dc: "s_denominators (integral_manifold\<lparr> s_trace_field := Some (NumberField 3) \<rparr>)
             = Some {}" by (simp add: integral_manifold_simps)
  have 1: "fst (same_denominators base_library integral_sphere integral_sphere) = Inr True"
    using same_denominators_comparison[OF a a da da, of base_library]
    by (simp add: integral_sphere_simps base_library_def)
  have 2: "fst (same_denominators base_library integral_sphere
          (integral_manifold\<lparr> s_trace_field := Some (NumberField 3) \<rparr>)) = Inr False"
    using same_denominators_comparison[OF a c da dc, of base_library]
    by (simp add: base_library_def)
  have 3: "(fst (same_denominators base_library integral_sphere integral_manifold) = Inr True
    \<or> (\<exists>e. fst (same_denominators base_library integral_sphere integral_manifold) = Inl e))
   \<and> snd (same_denominators base_library integral_sphere integral_manifold)
     = (integral_sphere, integral_manifold)"
    using same_denominators_comparison[OF a b da db, of base_library]
    by (simp add: integral_sphere_simps integral_manifold_simps base_library_def)
  from 1 2 3 show ?thesis by blast
qed

text \<open>
  Claim C2, as stated, fails: for two manifolds whose trace fields are isomorphic and not
  equal and whose sets of denominators are both empty, the comparison returns true.
\<close>

theorem same_denominators_isomorphic_counterexample:
  "s_trace_field integral_sphere = Some (NumberField 4)
 \<and> s_trace_field integral_manifold = Some (NumberField 14)
 \<and> nf_is_isomorphic base_library (NumberField 4) (NumberField 14)
 \<and> s_denominators integral_sphere = Some {}
 \<and> s_denominators integral_manifold = Some {}
 \<and> same_denominators base_library integral_sphere integral_manifold
      = (Inr True, integral_sphere, integral_manifold)"
proof -
  have i: "nf_is_isomorphic base_library (NumberField 4) (NumberField 14)"
    by (simp add: base_library_def)
  have "same_denominators base_library integral_sphere integral_manifold
      = (Inr True, integral_sphere, integral_manifold)"
    unfolding same_denominators_resolved[OF integral_sphere_simps(1) integral_manifold_simps(1)
        integral_sphere_simps(4) integral_manifold_simps(4)]
    using i
    by (simp add: integral_sphere_simps integral_manifold_simps
          planner_single_success[OF integral_sphere_simps(3)]
          planner_single_success[OF integral_manifold_simps(3)] base_library_anchored)
  with i show ?thesis by (simp add: integral_sphere_simps integral_manifold_simps)
qed

subsection \<open>The comparators and the classifier on unresolved invariants\<close>





















end
